theory Spec2Isabelle
  imports Main
begin

section \<open>Soong build configuration (android/config.go)\<close>

text \<open>
  A shallow embedding of the configuration core of \<^verbatim>\<open>android/config.go\<close>:
  the environment ledger (\<^verbatim>\<open>Getenv\<close>, \<^verbatim>\<open>EnvDeps\<close>), the product variable
  store (\<^verbatim>\<open>loadFromConfigFile\<close>, \<^verbatim>\<open>saveToConfigFile\<close>,
  \<^verbatim>\<open>saveToBazelConfigFile\<close>), and the construction of a configuration
  (\<^verbatim>\<open>NewConfig\<close>) with its multilib-conflict loop and its build-mode selection.
  Go pointers to optional values are \<open>option\<close>s, Go maps are partial functions, a panic
  or an \<^verbatim>\<open>os.Exit\<close> is a value of the type \<open>error\<close>, and the mutable receiver
  \<^verbatim>\<open>c *config\<close> is passed in and returned.
\<close>

subsection \<open>Errors\<close>

text \<open>
  One constructor for each \<^verbatim>\<open>fmt.Errorf\<close>, \<^verbatim>\<open>panic\<close> and \<^verbatim>\<open>os.Exit\<close> of the
  modelled functions. The arguments are the values that the Go format string
  interpolates, in the order of the format string.
\<close>

datatype error =
    EnvFrozenPanic
      \<comment> \<open>panic: Cannot access new environment variables after envdeps are frozen\<close>
  | BuildModeAlreadySet string
      \<comment> \<open>stderr: buildMode is already set, illegal argument: %s; then exit status 1\<close>
  | ConfigOpenError string string
      \<comment> \<open>config file: could not open %s: %s\<close>
  | ConfigParseError string string
      \<comment> \<open>config file: %s did not parse correctly: %s\<close>
  | CoverageBothSet
      \<comment> \<open>GcovCoverage and ClangCoverage cannot both be set\<close>
  | SdkVersionNull
      \<comment> \<open>Platform_sdk_version cannot be pointed by a NULL pointer\<close>
  | MarshalError string
      \<comment> \<open>cannot marshal config data: %s\<close>
  | CreateTempError string string
      \<comment> \<open>cannot create empty config file %s: %s\<close>
  | ConfigWriteError string string
      \<comment> \<open>default config file: %s could not be written: %s\<close>
  | CreateDirError string string
      \<comment> \<open>Could not create dir %s: %s\<close>
  | BzlWriteError string
      \<comment> \<open>Could not write .bzl config file %s\<close>
  | BuildWriteError string
      \<comment> \<open>Could not write BUILD config file %s\<close>
  | BuildDirContainsSource
      \<comment> \<open>Build dir must not contain source directory\<close>
  | IndexOutOfRange
      \<comment> \<open>runtime panic of an index expression on an empty slice\<close>
  | TypeAssertionPanic
      \<comment> \<open>runtime panic of a failed type assertion\<close>
  | LibraryError string
      \<comment> \<open>an error returned unchanged from a function outside this file\<close>

subsection \<open>Build modes\<close>

text \<open>The constants of type \<^verbatim>\<open>SoongBuildMode\<close>, in the order of their declaration.\<close>

datatype SoongBuildMode =
    AnalysisNoBazel
  | SymlinkForest
  | Bp2build
  | GenerateQueryView
  | ApiBp2build
  | GenerateModuleGraph
  | GenerateDocFile
  | BazelDevMode
  | BazelStagingMode
  | BazelProdMode

subsection \<open>The environment ledger\<close>

text \<open>
  The fields of \<^verbatim>\<open>config\<close> that the environment accessors use. \<^verbatim>\<open>envDeps\<close> is
  \<open>None\<close> for the nil map that a fresh configuration holds.
\<close>

record envLedger =
  env :: "string \<rightharpoonup> string"
  envDeps :: "(string \<rightharpoonup> string) option"
  envFrozen :: bool

text \<open>Reading a Go map that may be nil: a nil map reads as the empty map.\<close>

definition ledgerOf :: "(string \<rightharpoonup> string) option \<Rightarrow> (string \<rightharpoonup> string)" where
  "ledgerOf d = (case d of None \<Rightarrow> Map.empty | Some m \<Rightarrow> m)"

text \<open>\<^verbatim>\<open>val, _ = c.env[key]\<close>: the zero value, the empty string, for a missing key.\<close>

definition lookupEnv :: "(string \<rightharpoonup> string) \<Rightarrow> string \<Rightarrow> string" where
  "lookupEnv e key = (case e key of None \<Rightarrow> [] | Some v \<Rightarrow> v)"

text \<open>
  \<^verbatim>\<open>func (c *config) Getenv(key string) string\<close>. The nil ledger is replaced by an
  empty one first; a key of the ledger is answered from the ledger; a new key panics
  when the ledger is frozen and is otherwise read from \<^verbatim>\<open>c.env\<close> and recorded.
\<close>

definition Getenv :: "'a envLedger_scheme \<Rightarrow> string \<Rightarrow> error + (string \<times> 'a envLedger_scheme)" where
  "Getenv c key =
     (let c1 = (if envDeps c = None then c\<lparr>envDeps := Some Map.empty\<rparr> else c) in
      case ledgerOf (envDeps c1) key of
        Some val \<Rightarrow> Inr (val, c1)
      | None \<Rightarrow>
          if envFrozen c1 then Inl EnvFrozenPanic
          else let val = lookupEnv (env c1) key
               in Inr (val, c1\<lparr>envDeps := Some ((ledgerOf (envDeps c1))(key \<mapsto> val))\<rparr>))"

text \<open>\<^verbatim>\<open>func (c *config) GetenvWithDefault(key string, defaultValue string) string\<close>\<close>

definition GetenvWithDefault ::
  "'a envLedger_scheme \<Rightarrow> string \<Rightarrow> string \<Rightarrow> error + (string \<times> 'a envLedger_scheme)" where
  "GetenvWithDefault c key defaultValue =
     (case Getenv c key of
        Inl e \<Rightarrow> Inl e
      | Inr (ret, c') \<Rightarrow> if ret = [] then Inr (defaultValue, c') else Inr (ret, c'))"

text \<open>\<^verbatim>\<open>func (c *config) IsEnvTrue(key string) bool\<close>\<close>

definition truthy :: "string \<Rightarrow> bool" where
  "truthy v = (v = ''1'' \<or> v = ''y'' \<or> v = ''yes'' \<or> v = ''on'' \<or> v = ''true'')"

definition IsEnvTrue :: "'a envLedger_scheme \<Rightarrow> string \<Rightarrow> error + (bool \<times> 'a envLedger_scheme)" where
  "IsEnvTrue c key =
     (case Getenv c key of Inl e \<Rightarrow> Inl e | Inr (v, c') \<Rightarrow> Inr (truthy v, c'))"

text \<open>\<^verbatim>\<open>func (c *config) IsEnvFalse(key string) bool\<close>\<close>

definition falsy :: "string \<Rightarrow> bool" where
  "falsy v = (v = ''0'' \<or> v = ''n'' \<or> v = ''no'' \<or> v = ''off'' \<or> v = ''false'')"

definition IsEnvFalse :: "'a envLedger_scheme \<Rightarrow> string \<Rightarrow> error + (bool \<times> 'a envLedger_scheme)" where
  "IsEnvFalse c key =
     (case Getenv c key of Inl e \<Rightarrow> Inl e | Inr (v, c') \<Rightarrow> Inr (falsy v, c'))"

text \<open>
  \<^verbatim>\<open>func (c *config) EnvDeps() map[string]string\<close>: sets the flag and returns the
  ledger as it is, nil included.
\<close>

definition EnvDeps :: "'a envLedger_scheme \<Rightarrow> (string \<rightharpoonup> string) option \<times> 'a envLedger_scheme" where
  "EnvDeps c = (envDeps c, c\<lparr>envFrozen := True\<rparr>)"

text \<open>
  What a client does with a configuration between two observations: it calls
  \<^verbatim>\<open>Getenv\<close> or \<^verbatim>\<open>EnvDeps\<close>, or the map behind \<^verbatim>\<open>c.env\<close> (the caller's
  \<^verbatim>\<open>availableEnv\<close>) changes. A panic ends the run.
\<close>

datatype envCall = CallGetenv string | CallEnvDeps | EnvChanges "string \<rightharpoonup> string"

fun envCalls :: "'a envLedger_scheme \<Rightarrow> envCall list \<Rightarrow> error + 'a envLedger_scheme" where
  "envCalls c [] = Inr c"
| "envCalls c (CallGetenv key # rest) =
     (case Getenv c key of Inl e \<Rightarrow> Inl e | Inr (v, c') \<Rightarrow> envCalls c' rest)"
| "envCalls c (CallEnvDeps # rest) = envCalls (snd (EnvDeps c)) rest"
| "envCalls c (EnvChanges e # rest) = envCalls (c\<lparr>env := e\<rparr>) rest"

subsection \<open>The product variable store\<close>

text \<open>
  \<^verbatim>\<open>productVariables\<close> is declared in \<^verbatim>\<open>android/variable.go\<close>. The record has the
  fields that \<^verbatim>\<open>config.go\<close> reads or writes in the functions modelled here; all
  the other fields of the Go struct travel together in \<open>otherVariables\<close>. A Go pointer
  field is an \<open>option\<close> (\<open>None\<close> for nil), a slice is a list.
\<close>

record 'r productVariables =
  GcovCoverage :: "bool option"
  ClangCoverage :: "bool option"
  Native_coverage :: "bool option"
  Platform_sdk_version :: "int option"
  Platform_sdk_codename :: "string option"
  Platform_sdk_version_or_codename :: "string option"
  Platform_sdk_final :: "bool option"
  DeviceArch :: "string option"
  SanitizeHost :: "string list"
  SanitizeDevice :: "string list"
  SanitizeDeviceDiag :: "string list"
  SanitizeDeviceArch :: "string list"
  Ndk_abis :: "bool option"
  Aml_abis :: "bool option"
  otherVariables :: 'r

text \<open>\<^verbatim>\<open>proptools.Bool\<close> and \<^verbatim>\<open>proptools.String\<close>: the value behind the pointer, or the zero value.\<close>

definition Bool :: "bool option \<Rightarrow> bool" where
  "Bool p = (case p of None \<Rightarrow> False | Some b \<Rightarrow> b)"

definition String :: "string option \<Rightarrow> string" where
  "String p = (case p of None \<Rightarrow> [] | Some s \<Rightarrow> s)"

text \<open>\<^verbatim>\<open>strconv.Itoa\<close>: the decimal digits of an integer, with a minus sign when negative.\<close>

function natDigits :: "nat \<Rightarrow> string" where
  "natDigits n = (if n < 10 then [''0123456789'' ! n]
                  else natDigits (n div 10) @ [''0123456789'' ! (n mod 10)])"
  by pat_completeness auto
termination
  by (relation "measure id") auto

definition Itoa :: "int \<Rightarrow> string" where
  "Itoa i = (if i < 0 then CHR ''-'' # natDigits (nat (- i)) else natDigits (nat i))"

subsection \<open>The file system\<close>

text \<open>
  The calls into \<^verbatim>\<open>os\<close> and \<^verbatim>\<open>pathtools\<close> that the modelled functions make.
  A world holds the regular files by path, says which calls fail and with which
  underlying error text, names the file that \<^verbatim>\<open>os.CreateTemp\<close> creates, and
  keeps the list of the calls made so far, latest first.
\<close>

datatype ioCall =
    OsOpen string
  | OsCreateTemp string string
  | FileWrite string string
  | FileClose string
  | OsRename string string
  | OsRemove string
  | OsStat string
  | CreateDir string
  | WriteFileIfChanged string string

record world =
  files :: "string \<rightharpoonup> string"
  fault :: "ioCall \<Rightarrow> string option"
  tempName :: "string \<Rightarrow> string \<Rightarrow> string"
  trace :: "ioCall list"

definition logCall :: "ioCall \<Rightarrow> world \<Rightarrow> world" where
  "logCall call w = w\<lparr>trace := call # trace w\<rparr>"

datatype openResult = NotExist | OpenFailed string | Opened string

text \<open>\<^verbatim>\<open>os.Open\<close>: a missing file is told apart from every other failure (\<^verbatim>\<open>os.IsNotExist\<close>).\<close>

definition os_Open :: "string \<Rightarrow> world \<Rightarrow> openResult \<times> world" where
  "os_Open name w =
     (let w' = logCall (OsOpen name) w in
      case fault w (OsOpen name) of
        Some e \<Rightarrow> (OpenFailed e, w')
      | None \<Rightarrow> (case files w name of None \<Rightarrow> (NotExist, w') | Some d \<Rightarrow> (Opened d, w')))"

text \<open>\<^verbatim>\<open>os.CreateTemp(dir, pattern)\<close>: a new empty file in \<open>dir\<close>; its name is returned.\<close>

definition os_CreateTemp :: "string \<Rightarrow> string \<Rightarrow> world \<Rightarrow> (string + string) \<times> world" where
  "os_CreateTemp dir pattern w =
     (let w' = logCall (OsCreateTemp dir pattern) w in
      case fault w (OsCreateTemp dir pattern) of
        Some e \<Rightarrow> (Inl e, w')
      | None \<Rightarrow> (Inr (tempName w dir pattern),
                  w'\<lparr>files := (files w')(tempName w dir pattern \<mapsto> [])\<rparr>))"

text \<open>\<^verbatim>\<open>f.Write\<close> and \<^verbatim>\<open>f.WriteString\<close>: the data is appended to the open file.\<close>

definition file_Write :: "string \<Rightarrow> string \<Rightarrow> world \<Rightarrow> string option \<times> world" where
  "file_Write name d w =
     (let w' = logCall (FileWrite name d) w in
      case fault w (FileWrite name d) of
        Some e \<Rightarrow> (Some e, w')
      | None \<Rightarrow> (None, w'\<lparr>files := (files w')(name \<mapsto> (case files w' name of None \<Rightarrow> d | Some old \<Rightarrow> old @ d))\<rparr>))"

text \<open>\<^verbatim>\<open>f.Close\<close> changes no file.\<close>

definition file_Close :: "string \<Rightarrow> world \<Rightarrow> string option \<times> world" where
  "file_Close name w = (fault w (FileClose name), logCall (FileClose name) w)"

text \<open>\<^verbatim>\<open>os.Rename\<close>: the file moves to the new path and replaces what was there.\<close>

definition os_Rename :: "string \<Rightarrow> string \<Rightarrow> world \<Rightarrow> string option \<times> world" where
  "os_Rename old new w =
     (let w' = logCall (OsRename old new) w in
      case fault w (OsRename old new) of
        Some e \<Rightarrow> (Some e, w')
      | None \<Rightarrow> (case files w' old of
                   None \<Rightarrow> (Some ''no such file or directory'', w')
                 | Some d \<Rightarrow> (None, w'\<lparr>files := ((files w')(old := None))(new \<mapsto> d)\<rparr>)))"

text \<open>\<^verbatim>\<open>os.Remove\<close>\<close>

definition os_Remove :: "string \<Rightarrow> world \<Rightarrow> string option \<times> world" where
  "os_Remove name w =
     (let w' = logCall (OsRemove name) w in
      case fault w (OsRemove name) of
        Some e \<Rightarrow> (Some e, w')
      | None \<Rightarrow> (case files w' name of
                   None \<Rightarrow> (Some ''no such file or directory'', w')
                 | Some d \<Rightarrow> (None, w'\<lparr>files := (files w')(name := None)\<rparr>)))"

text \<open>\<^verbatim>\<open>os.Stat\<close>, as far as its error is concerned.\<close>

definition os_Stat :: "string \<Rightarrow> world \<Rightarrow> string option \<times> world" where
  "os_Stat name w =
     (let w' = logCall (OsStat name) w in
      case fault w (OsStat name) of
        Some e \<Rightarrow> (Some e, w')
      | None \<Rightarrow> (case files w' name of
                   None \<Rightarrow> (Some ''no such file or directory'', w')
                 | Some d \<Rightarrow> (None, w')))"

text \<open>\<^verbatim>\<open>pathtools.WriteFileIfChanged\<close>: afterwards the file holds the data.\<close>

definition pathtools_WriteFileIfChanged :: "string \<Rightarrow> string \<Rightarrow> world \<Rightarrow> string option \<times> world" where
  "pathtools_WriteFileIfChanged name d w =
     (let w' = logCall (WriteFileIfChanged name d) w in
      case fault w (WriteFileIfChanged name d) of
        Some e \<Rightarrow> (Some e, w')
      | None \<Rightarrow> (None, w'\<lparr>files := (files w')(name \<mapsto> d)\<rparr>))"

text \<open>
  Modelled from the spec: \<^verbatim>\<open>createDirIfNonexistent\<close> is defined outside
  \<^verbatim>\<open>config.go\<close>. The spec knows it by its failure, "failed directory creation":
  the call either fails with an underlying error or leaves the directory in place.
  Directories are not part of \<open>files\<close>.
\<close>

definition createDirIfNonexistent :: "string \<Rightarrow> world \<Rightarrow> string option \<times> world" where
  "createDirIfNonexistent dir w = (fault w (CreateDir dir), logCall (CreateDir dir) w)"

subsection \<open>Loading and saving the product variables\<close>

text \<open>
  What \<^verbatim>\<open>loadFromConfigFile\<close> and the two save functions call outside
  \<^verbatim>\<open>config.go\<close>: \<^verbatim>\<open>SetDefaultConfig\<close> and the field declarations of
  \<^verbatim>\<open>variableProperties\<close> (both in \<^verbatim>\<open>android/variable.go\<close>), the packages
  \<^verbatim>\<open>bazel\<close> and \<^verbatim>\<open>starlark_fmt\<close>, and Go's \<^verbatim>\<open>encoding/json\<close>,
  \<^verbatim>\<open>path/filepath\<close> and \<^verbatim>\<open>strings.ToLower\<close>. They are parameters of the model.
  \<open>json_Decode\<close> decodes into an existing store and returns the store as the decoder
  left it, with the error text if it failed. \<open>zeroOtherVariables\<close> is the zero value
  of the fields behind \<open>otherVariables\<close>. \<open>productVariableFields\<close> lists the fields of
  \<^verbatim>\<open>variableProperties.Product_variables\<close> in order, each with whether it carries
  the tag \<^verbatim>\<open>android:"arch_variant"\<close>.
\<close>

record 'r storeLib =
  zeroOtherVariables :: 'r
  SetDefaultConfig :: "'r productVariables \<Rightarrow> 'r productVariables"
  json_MarshalIndent :: "'r productVariables \<Rightarrow> string + string"
  json_Decode :: "string \<Rightarrow> 'r productVariables \<Rightarrow> string option \<times> 'r productVariables"
  filepath_Dir :: "string \<Rightarrow> string"
  filepath_Join :: "string list \<Rightarrow> string"
  strings_ToLower :: "string \<Rightarrow> string"
  SoongInjectionDirName :: string
  GeneratedBazelFileWarning :: string
  productVariableFields :: "(string \<times> bool) list"
  PrintStringList :: "string list \<Rightarrow> nat \<Rightarrow> string"

definition newline :: string where
  "newline = [CHR 0x0A]"

text \<open>The deferred \<^verbatim>\<open>f.Close()\<close> and \<^verbatim>\<open>os.Remove(f.Name())\<close> of \<^verbatim>\<open>saveToConfigFile\<close>, in the order they run.\<close>

definition closeAndRemove :: "string \<Rightarrow> world \<Rightarrow> world" where
  "closeAndRemove f w = snd (os_Remove f (snd (file_Close f w)))"

text \<open>
  \<^verbatim>\<open>func saveToConfigFile(config *productVariables, filename string) error\<close>.
  The results of the second \<^verbatim>\<open>f.Close()\<close> and of \<^verbatim>\<open>os.Rename\<close> are dropped,
  as in the source, and the function returns nil after them.
\<close>

definition saveToConfigFile ::
  "('r, 'x) storeLib_scheme \<Rightarrow> 'r productVariables \<Rightarrow> string \<Rightarrow> world \<Rightarrow> error option \<times> world" where
  "saveToConfigFile lib config filename w =
     (case json_MarshalIndent lib config of
        Inl e \<Rightarrow> (Some (MarshalError e), w)
      | Inr d \<Rightarrow>
          (case os_CreateTemp (filepath_Dir lib filename) ''config'' w of
             (Inl e, w1) \<Rightarrow> (Some (CreateTempError filename e), w1)
           | (Inr f, w1) \<Rightarrow>
               (case file_Write f d w1 of
                  (Some e, w2) \<Rightarrow> (Some (ConfigWriteError filename e), closeAndRemove f w2)
                | (None, w2) \<Rightarrow>
                    (case file_Write f newline w2 of
                       (Some e, w3) \<Rightarrow> (Some (ConfigWriteError filename e), closeAndRemove f w3)
                     | (None, w3) \<Rightarrow>
                         (let w4 = snd (file_Close f w3);
                              w5 = snd (os_Rename f filename w4)
                          in (None, closeAndRemove f w5))))))"

text \<open>
  \<^verbatim>\<open>strings.Join\<close>, and the \<^verbatim>\<open>bytes.ReplaceAll\<close> that doubles every backslash
  of the JSON text.
\<close>

fun strings_Join :: "string list \<Rightarrow> string \<Rightarrow> string" where
  "strings_Join [] sep = []"
| "strings_Join [x] sep = x"
| "strings_Join (x # y # ys) sep = x @ sep @ strings_Join (y # ys) sep"

fun escapeBackslashes :: "string \<Rightarrow> string" where
  "escapeBackslashes [] = []"
| "escapeBackslashes (c # cs) =
     (if c = CHR 0x5C then CHR 0x5C # CHR 0x5C # escapeBackslashes cs
      else c # escapeBackslashes cs)"

text \<open>The three texts that \<^verbatim>\<open>saveToBazelConfigFile\<close> writes.\<close>

definition productVariablesBzl :: "string \<Rightarrow> string \<Rightarrow> string \<Rightarrow> string \<Rightarrow> string" where
  "productVariablesBzl warning configJson nonArchJson archJson =
     strings_Join
       [warning,
        ''_product_vars = json.decode('' @ [CHR 0x22, CHR 0x22, CHR 0x22] @ configJson
          @ [CHR 0x22, CHR 0x22, CHR 0x22] @ '')'',
        ''_product_var_constraints = '' @ nonArchJson,
        ''_arch_variant_product_var_constraints = '' @ archJson,
        newline,
        newline @ ''product_vars = _product_vars'' @ newline @ newline
          @ ''# TODO(b/269577299) Remove these when everything switches over to loading them from product_variable_constants.bzl''
          @ newline @ ''product_var_constraints = _product_var_constraints'' @ newline
          @ ''arch_variant_product_var_constraints = _arch_variant_product_var_constraints''
          @ newline]
       newline"

definition productVariableConstantsBzl :: "string \<Rightarrow> string \<Rightarrow> string" where
  "productVariableConstantsBzl nonArchJson archJson =
     newline @ ''product_var_constraints = '' @ nonArchJson @ newline
       @ ''arch_variant_product_var_constraints = '' @ archJson @ newline"

text \<open>
  \<^verbatim>\<open>func saveToBazelConfigFile(config *productVariables, outDir string) error\<close>.
  The two \<^verbatim>\<open>if err != nil\<close> after \<^verbatim>\<open>PrintStringList\<close> test the nil error of
  the directory creation and never fire.
\<close>

definition saveToBazelConfigFile ::
  "('r, 'x) storeLib_scheme \<Rightarrow> 'r productVariables \<Rightarrow> string \<Rightarrow> world \<Rightarrow> error option \<times> world" where
  "saveToBazelConfigFile lib config outDir w =
     (let dir = filepath_Join lib [outDir, SoongInjectionDirName lib, ''product_config''] in
      case createDirIfNonexistent dir w of
        (Some e, w1) \<Rightarrow> (Some (CreateDirError dir e), w1)
      | (None, w1) \<Rightarrow>
          (let nonArchVariantProductVariables =
                 map (\<lambda>f. strings_ToLower lib (fst f)) (productVariableFields lib);
               archVariantProductVariables =
                 map (\<lambda>f. strings_ToLower lib (fst f)) (filter snd (productVariableFields lib));
               nonArchJson = PrintStringList lib nonArchVariantProductVariables 0;
               archJson = PrintStringList lib archVariantProductVariables 0
           in case json_MarshalIndent lib config of
                Inl e \<Rightarrow> (Some (MarshalError e), w1)
              | Inr configJson \<Rightarrow>
                  (case pathtools_WriteFileIfChanged
                          (filepath_Join lib [dir, ''product_variables.bzl''])
                          (productVariablesBzl (GeneratedBazelFileWarning lib)
                             (escapeBackslashes configJson) nonArchJson archJson) w1 of
                     (Some e, w2) \<Rightarrow> (Some (BzlWriteError e), w2)
                   | (None, w2) \<Rightarrow>
                       (case pathtools_WriteFileIfChanged
                               (filepath_Join lib [dir, ''product_variable_constants.bzl''])
                               (productVariableConstantsBzl nonArchJson archJson) w2 of
                          (Some e, w3) \<Rightarrow> (Some (BzlWriteError e), w3)
                        | (None, w3) \<Rightarrow>
                            (case pathtools_WriteFileIfChanged
                                    (filepath_Join lib [dir, ''BUILD''])
                                    (GeneratedBazelFileWarning lib) w3 of
                               (Some e, w4) \<Rightarrow> (Some (BuildWriteError e), w4)
                             | (None, w4) \<Rightarrow> (None, w4))))))"

text \<open>
  The second half of \<^verbatim>\<open>loadFromConfigFile\<close>, from the coverage check to the export:
  the store arrives as the first half left it. Since \<^verbatim>\<open>configurable\<close> is a pointer,
  the caller sees the store as it is when the function returns, error or not; the
  result is the error, that store, and the world.
\<close>

definition deriveAndExport ::
  "('r, 'x) storeLib_scheme \<Rightarrow> 'r productVariables \<Rightarrow> string \<Rightarrow> world
     \<Rightarrow> error option \<times> 'r productVariables \<times> world" where
  "deriveAndExport lib configurable filename w =
     (if Bool (GcovCoverage configurable) \<and> Bool (ClangCoverage configurable)
      then (Some CoverageBothSet, configurable, w)
      else
        (let c1 = configurable\<lparr>Native_coverage :=
                    Some (Bool (GcovCoverage configurable) \<or> Bool (ClangCoverage configurable))\<rparr>
         in if Bool (Platform_sdk_final c1)
            then (case Platform_sdk_version c1 of
                    Some v \<Rightarrow>
                      (let c2 = c1\<lparr>Platform_sdk_version_or_codename := Some (Itoa v)\<rparr>;
                           (err, w') = saveToBazelConfigFile lib c2 (filepath_Dir lib filename) w
                       in (err, c2, w'))
                  | None \<Rightarrow> (Some SdkVersionNull, c1, w))
            else
              (let c2 = c1\<lparr>Platform_sdk_version_or_codename :=
                          Some (String (Platform_sdk_codename c1))\<rparr>;
                   (err, w') = saveToBazelConfigFile lib c2 (filepath_Dir lib filename) w
               in (err, c2, w'))))"

text \<open>
  \<^verbatim>\<open>func loadFromConfigFile(configurable *productVariables, filename string) error\<close>.
  The deferred \<^verbatim>\<open>configFileReader.Close()\<close> closes a file only when the open
  succeeded; it is the last call then.
\<close>

definition loadFromConfigFile ::
  "('r, 'x) storeLib_scheme \<Rightarrow> 'r productVariables \<Rightarrow> string \<Rightarrow> world
     \<Rightarrow> error option \<times> 'r productVariables \<times> world" where
  "loadFromConfigFile lib configurable filename w =
     (case os_Open filename w of
        (NotExist, w1) \<Rightarrow>
          (let c1 = SetDefaultConfig lib configurable in
           case saveToConfigFile lib c1 filename w1 of
             (Some e, w2) \<Rightarrow> (Some e, c1, w2)
           | (None, w2) \<Rightarrow> deriveAndExport lib c1 filename w2)
      | (OpenFailed e, w1) \<Rightarrow> (Some (ConfigOpenError filename e), configurable, w1)
      | (Opened d, w1) \<Rightarrow>
          (case json_Decode lib d configurable of
             (Some e, c1) \<Rightarrow>
               (Some (ConfigParseError filename e), c1, snd (file_Close filename w1))
           | (None, c1) \<Rightarrow>
               (let (err, c2, w2) = deriveAndExport lib c1 filename w1
                in (err, c2, snd (file_Close filename w2)))))"

subsection \<open>Targets, arguments and the configuration\<close>

text \<open>
  Modelled from the spec: \<^verbatim>\<open>OsType\<close>, \<^verbatim>\<open>ArchType\<close>, \<^verbatim>\<open>Arch\<close>,
  \<^verbatim>\<open>Target\<close> and \<^verbatim>\<open>archConfig\<close> are declared in \<^verbatim>\<open>android/arch.go\<close>. A
  target is an OS type, an architecture type, an architecture variant and a multilib
  class ("lib32" or "lib64"); the multilib class belongs to the architecture type, as
  \<^verbatim>\<open>target.Arch.ArchType.Multilib\<close> in \<^verbatim>\<open>NewConfig\<close> shows. \<open>NoOsType\<close> is the zero
  value.
\<close>

datatype OsType = NoOsType | Android | CommonOS | HostOs string

record ArchType =
  Name :: string
  Field :: string
  Multilib :: string

record Arch =
  ArchType :: ArchType
  ArchVariant :: string

record Target =
  Os :: OsType
  Arch :: Arch

record archConfig =
  arch :: string
  archVariant :: string
  cpuVariant :: string
  abi :: "string list"

definition zeroArchType :: ArchType where
  "zeroArchType = \<lparr>Name = [], Field = [], Multilib = []\<rparr>"

definition zeroTarget :: Target where
  "zeroTarget = \<lparr>Os = NoOsType, Arch = \<lparr>ArchType = zeroArchType, ArchVariant = []\<rparr>\<rparr>"

text \<open>
  \<^verbatim>\<open>type CmdArgs struct\<close>. Of the embedded \<^verbatim>\<open>bootstrap.Args\<close> only
  \<^verbatim>\<open>ModuleListFile\<close> is read here.
\<close>

record CmdArgs =
  ModuleListFile :: string
  RunGoTests :: bool
  OutDir :: string
  SoongOutDir :: string
  SymlinkForestMarker :: string
  Bp2buildMarker :: string
  BazelQueryViewDir :: string
  BazelApiBp2buildDir :: string
  ModuleGraphFile :: string
  ModuleActionsFile :: string
  DocFile :: string
  MultitreeBuildArg :: bool
  BazelMode :: bool
  BazelModeDev :: bool
  BazelModeStaging :: bool
  BazelForceEnabledModules :: string
  UseBazelProxyArg :: bool
  BuildFromTextStub :: bool

text \<open>A value stored by \<^verbatim>\<open>Once\<close>: Go's \<^verbatim>\<open>interface{}\<close>, by the types stored in this file.\<close>

datatype onceValue = OnceBool bool | OnceStrings "string list" | OnceOther

text \<open>
  \<^verbatim>\<open>type config struct\<close>: the environment ledger and the fields that the modelled
  functions read or write. The locks, the file system handle, the Bazel context and
  allowlists and the metrics maps are left out. \<open>Targets\<close> gives the empty list
  for an OS that is not a key of the Go map; \<open>once\<close> is the store behind the embedded
  \<^verbatim>\<open>OncePer\<close>. (\<^verbatim>\<open>CmdArgs.MultitreeBuild\<close> and \<^verbatim>\<open>CmdArgs.UseBazelProxy\<close>
  carry the suffix \<open>Arg\<close> above, to keep their names apart from the fields here.)
\<close>

record 'r config = envLedger +
  productVariables :: "'r productVariables"
  ProductVariablesFileName :: string
  BuildOS :: OsType
  BuildArch :: ArchType
  Targets :: "OsType \<Rightarrow> Target list"
  BuildOSTarget :: Target
  BuildOSCommonTarget :: Target
  AndroidCommonTarget :: Target
  AndroidFirstDeviceTarget :: Target
  multilibConflicts :: "ArchType \<rightharpoonup> bool"
  outDir :: string
  soongOutDir :: string
  moduleListFile :: string
  runGoTests :: bool
  katiEnabled :: bool
  BuildMode :: SoongBuildMode
  MultitreeBuild :: bool
  once :: "string \<rightharpoonup> onceValue"
  bazelForceEnabledModules :: "string set"
  UseBazelProxy :: bool
  buildFromTextStub :: bool

text \<open>Reading a \<^verbatim>\<open>map[K]bool\<close>: false for a missing key.\<close>

definition lookupBool :: "('k \<rightharpoonup> bool) \<Rightarrow> 'k \<Rightarrow> bool" where
  "lookupBool m k = (case m k of None \<Rightarrow> False | Some b \<Rightarrow> b)"


text \<open>\<^verbatim>\<open>func (c *config) NdkAbis() bool\<close> and \<^verbatim>\<open>func (c *config) AmlAbis() bool\<close>\<close>

definition NdkAbis :: "'r config \<Rightarrow> bool" where
  "NdkAbis c = Bool (Ndk_abis (productVariables c))"

definition AmlAbis :: "'r config \<Rightarrow> bool" where
  "AmlAbis c = Bool (Aml_abis (productVariables c))"

text \<open>\<^verbatim>\<open>strings.HasPrefix(s, prefix)\<close>\<close>

fun HasPrefix :: "string \<Rightarrow> string \<Rightarrow> bool" where
  "HasPrefix s [] = True"
| "HasPrefix [] (p # ps) = False"
| "HasPrefix (c # cs) (p # ps) = (c = p \<and> HasPrefix cs ps)"

text \<open>\<^verbatim>\<open>strings.Split(s, sep)\<close> for a separator of one character: never the empty list.\<close>

fun strings_Split :: "string \<Rightarrow> char \<Rightarrow> string list" where
  "strings_Split [] sep = [[]]"
| "strings_Split (c # cs) sep =
     (if c = sep then [] # strings_Split cs sep
      else (case strings_Split cs sep of
              [] \<Rightarrow> [[c]]
            | x # xs \<Rightarrow> (c # x) # xs))"

subsection \<open>Constructing a configuration\<close>

text \<open>
  What \<^verbatim>\<open>NewConfig\<close> calls outside \<^verbatim>\<open>config.go\<close>, besides the functions of
  the store: \<^verbatim>\<open>filepath.Abs\<close> (with its error text), \<^verbatim>\<open>absolutePath\<close>,
  \<^verbatim>\<open>determineBuildOS\<close> (the OS and architecture it assigns, or its panic),
  \<^verbatim>\<open>decodeTargetProductVariables\<close>, the entry of \<^verbatim>\<open>commonTargetMap\<close> for
  \<^verbatim>\<open>CommonOS\<close>, \<^verbatim>\<open>getNdkAbisConfig\<close>, \<^verbatim>\<open>getAmlAbisConfig\<close>,
  \<^verbatim>\<open>decodeAndroidArchSettings\<close>, \<^verbatim>\<open>getCommonTargets\<close>, \<^verbatim>\<open>FirstTarget\<close>, and
  \<^verbatim>\<open>NewBazelContext\<close> (its error only).
\<close>

record 'r buildLib = "'r storeLib" +
  filepath_Abs :: "string \<Rightarrow> string + string"
  absolutePath :: "string \<Rightarrow> string"
  determineBuildOS :: "'r config \<Rightarrow> error + (OsType \<times> ArchType)"
  decodeTargetProductVariables :: "'r config \<Rightarrow> error + (OsType \<Rightarrow> Target list)"
  commonOSTarget :: Target
  getNdkAbisConfig :: "archConfig list"
  getAmlAbisConfig :: "archConfig list"
  decodeAndroidArchSettings :: "archConfig list \<Rightarrow> error + Target list"
  getCommonTargets :: "Target list \<Rightarrow> Target list"
  FirstTarget :: "Target list \<Rightarrow> string list \<Rightarrow> Target list"
  NewBazelContext :: "'r config \<Rightarrow> error option"

text \<open>The product variables file name, \<^verbatim>\<open>const productVariablesFileName\<close>.\<close>

definition productVariablesFileName :: string where
  "productVariablesFileName = ''soong.variables''"

text \<open>
  The composite literal at the head of \<^verbatim>\<open>NewConfig\<close>: the fields it names, and the
  zero value everywhere else. \<open>zeroVariables\<close> is the zero value of
  \<^verbatim>\<open>productVariables\<close>.
\<close>

definition zeroVariables :: "'r \<Rightarrow> 'r productVariables" where
  "zeroVariables r =
     \<lparr>GcovCoverage = None, ClangCoverage = None, Native_coverage = None,
      Platform_sdk_version = None, Platform_sdk_codename = None,
      Platform_sdk_version_or_codename = None, Platform_sdk_final = None,
      DeviceArch = None, SanitizeHost = [], SanitizeDevice = [],
      SanitizeDeviceDiag = [], SanitizeDeviceArch = [],
      Ndk_abis = None, Aml_abis = None, otherVariables = r\<rparr>"

definition initialConfig ::
  "('r, 'x) buildLib_scheme \<Rightarrow> CmdArgs \<Rightarrow> (string \<rightharpoonup> string) \<Rightarrow> 'r config" where
  "initialConfig lib cmdArgs availableEnv =
     \<lparr>env = availableEnv, envDeps = None, envFrozen = False,
      productVariables = zeroVariables (zeroOtherVariables lib),
      ProductVariablesFileName = filepath_Join lib [SoongOutDir cmdArgs, productVariablesFileName],
      BuildOS = NoOsType, BuildArch = zeroArchType,
      Targets = (\<lambda>os. []),
      BuildOSTarget = zeroTarget, BuildOSCommonTarget = zeroTarget,
      AndroidCommonTarget = zeroTarget, AndroidFirstDeviceTarget = zeroTarget,
      multilibConflicts = Map.empty,
      outDir = OutDir cmdArgs, soongOutDir = SoongOutDir cmdArgs,
      moduleListFile = ModuleListFile cmdArgs,
      runGoTests = RunGoTests cmdArgs,
      katiEnabled = False,
      BuildMode = AnalysisNoBazel,
      MultitreeBuild = MultitreeBuildArg cmdArgs,
      once = Map.empty,
      bazelForceEnabledModules = {},
      UseBazelProxy = UseBazelProxyArg cmdArgs,
      buildFromTextStub = BuildFromTextStub cmdArgs\<rparr>"

text \<open>\<^verbatim>\<open>func loadConfig(config *config) error\<close>\<close>

definition loadConfig ::
  "('r, 'x) buildLib_scheme \<Rightarrow> 'r config \<Rightarrow> world \<Rightarrow> error option \<times> 'r config \<times> world" where
  "loadConfig lib config w =
     (let (err, vars, w') =
            loadFromConfigFile lib (productVariables config)
              (absolutePath lib (ProductVariablesFileName config)) w
      in (err, config\<lparr>productVariables := vars\<rparr>, w'))"

text \<open>
  The loop of \<^verbatim>\<open>NewConfig\<close> over \<^verbatim>\<open>targets[Android]\<close>: \<open>multilib\<close> is the local
  map of the classes seen, \<open>conflicts\<close> is \<^verbatim>\<open>config.multilibConflicts\<close>.
\<close>

fun multilibLoop ::
  "Target list \<Rightarrow> (string \<rightharpoonup> bool) \<Rightarrow> (ArchType \<rightharpoonup> bool) \<Rightarrow> (ArchType \<rightharpoonup> bool)" where
  "multilibLoop [] multilib conflicts = conflicts"
| "multilibLoop (target # rest) multilib conflicts =
     multilibLoop rest
       (multilib(Multilib (ArchType (Arch target)) \<mapsto> True))
       (if lookupBool multilib (Multilib (ArchType (Arch target)))
        then conflicts(ArchType (Arch target) \<mapsto> True)
        else conflicts)"

text \<open>
  The closures \<^verbatim>\<open>setBuildMode\<close> and \<^verbatim>\<open>setBazelMode\<close> of \<^verbatim>\<open>NewConfig\<close>.
  \<open>Inl\<close> is the exit of the process with status 1, after the message with the
  argument (\<^verbatim>\<open>arg\<close>, or \<^verbatim>\<open>argName\<close>) on the error stream.
\<close>

definition setBuildMode :: "string \<Rightarrow> SoongBuildMode \<Rightarrow> 'r config \<Rightarrow> error + 'r config" where
  "setBuildMode arg mode config =
     (if arg \<noteq> [] then
        (if BuildMode config \<noteq> AnalysisNoBazel then Inl (BuildModeAlreadySet arg)
         else Inr (config\<lparr>BuildMode := mode\<rparr>))
      else Inr config)"

definition setBazelMode :: "bool \<Rightarrow> string \<Rightarrow> SoongBuildMode \<Rightarrow> 'r config \<Rightarrow> error + 'r config" where
  "setBazelMode arg argName mode config =
     (if arg then
        (if BuildMode config \<noteq> AnalysisNoBazel then Inl (BuildModeAlreadySet argName)
         else Inr (config\<lparr>BuildMode := mode\<rparr>))
      else Inr config)"

text \<open>One statement after another, until one ends the process.\<close>

definition andThen :: "error + 'a \<Rightarrow> ('a \<Rightarrow> error + 'b) \<Rightarrow> error + 'b" where
  "andThen r f = (case r of Inl e \<Rightarrow> Inl e | Inr x \<Rightarrow> f x)"

text \<open>The nine calls of the two closures at the end of \<^verbatim>\<open>NewConfig\<close>, in their order.\<close>

definition selectBuildMode :: "CmdArgs \<Rightarrow> 'r config \<Rightarrow> error + 'r config" where
  "selectBuildMode cmdArgs config =
     andThen (setBuildMode (SymlinkForestMarker cmdArgs) SymlinkForest config) (\<lambda>config.
     andThen (setBuildMode (Bp2buildMarker cmdArgs) Bp2build config) (\<lambda>config.
     andThen (setBuildMode (BazelQueryViewDir cmdArgs) GenerateQueryView config) (\<lambda>config.
     andThen (setBuildMode (BazelApiBp2buildDir cmdArgs) ApiBp2build config) (\<lambda>config.
     andThen (setBuildMode (ModuleGraphFile cmdArgs) GenerateModuleGraph config) (\<lambda>config.
     andThen (setBuildMode (DocFile cmdArgs) GenerateDocFile config) (\<lambda>config.
     andThen (setBazelMode (BazelModeDev cmdArgs) ''--bazel-mode-dev'' BazelDevMode config) (\<lambda>config.
     andThen (setBazelMode (BazelMode cmdArgs) ''--bazel-mode'' BazelProdMode config) (\<lambda>config.
     setBazelMode (BazelModeStaging cmdArgs) ''--bazel-mode-staging'' BazelStagingMode config))))))))"

text \<open>
  The part of \<^verbatim>\<open>NewConfig\<close> after the marker file is looked up: the build OS,
  the targets, the multilib conflicts, the target slots, the build mode, the
  force-enabled modules and the Bazel context. \<open>Inl\<close> is the end of the process
  (a panic, or the exit of \<^verbatim>\<open>setBuildMode\<close>); \<open>Inr\<close> is the pair that
  \<^verbatim>\<open>NewConfig\<close> returns, with \<open>None\<close> for the empty \<^verbatim>\<open>Config{}\<close>. The slices
  returned by \<^verbatim>\<open>getNdkAbisConfig\<close> and \<^verbatim>\<open>getAmlAbisConfig\<close> are taken to be
  non-nil.
\<close>

definition androidTargetSlots ::
  "('r, 'x) buildLib_scheme \<Rightarrow> 'r config \<Rightarrow> error + 'r config" where
  "androidTargetSlots lib config =
     (if length (Targets config Android) > 0 then
        (case getCommonTargets lib (Targets config Android) of
           [] \<Rightarrow> Inl IndexOutOfRange
         | common # _ \<Rightarrow>
             (case FirstTarget lib (Targets config Android) [''lib64'', ''lib32''] of
                [] \<Rightarrow> Inl IndexOutOfRange
              | first # _ \<Rightarrow>
                  Inr (config\<lparr>AndroidCommonTarget := common,
                               AndroidFirstDeviceTarget := first\<rparr>)))
      else Inr config)"

definition resolveTargetsAndMode ::
  "('r, 'x) buildLib_scheme \<Rightarrow> CmdArgs \<Rightarrow> 'r config
     \<Rightarrow> error + ('r config option \<times> error option)" where
  "resolveTargetsAndMode lib cmdArgs config0 =
     (case determineBuildOS lib config0 of
        Inl e \<Rightarrow> Inl e
      | Inr (buildOS, buildArch) \<Rightarrow>
          (let config1 = config0\<lparr>BuildOS := buildOS, BuildArch := buildArch\<rparr> in
           case decodeTargetProductVariables lib config1 of
             Inl e \<Rightarrow> Inr (None, Some e)
           | Inr targets0 \<Rightarrow>
               (let targets1 = targets0(CommonOS := [commonOSTarget lib]);
                    archConfig =
                      (if NdkAbis config1 then Some (getNdkAbisConfig lib)
                       else if AmlAbis config1 then Some (getAmlAbisConfig lib)
                       else None)
                in case (case archConfig of
                           None \<Rightarrow> Inr targets1
                         | Some ac \<Rightarrow>
                             (case decodeAndroidArchSettings lib ac of
                                Inl e \<Rightarrow> Inl e
                              | Inr androidTargets \<Rightarrow> Inr (targets1(Android := androidTargets)))) of
                     Inl e \<Rightarrow> Inr (None, Some e)
                   | Inr targets \<Rightarrow>
                       (let config2 = config1
                              \<lparr>multilibConflicts :=
                                 multilibLoop (targets Android) Map.empty (multilibConflicts config1),
                               Targets := targets\<rparr>
                        in case Targets config2 (BuildOS config2) of
                             [] \<Rightarrow> Inl IndexOutOfRange
                           | buildOSTarget # _ \<Rightarrow>
                               (case getCommonTargets lib (Targets config2 (BuildOS config2)) of
                                  [] \<Rightarrow> Inl IndexOutOfRange
                                | buildOSCommonTarget # _ \<Rightarrow>
                                    andThen (androidTargetSlots lib
                                               (config2\<lparr>BuildOSTarget := buildOSTarget,
                                                        BuildOSCommonTarget := buildOSCommonTarget\<rparr>))
                                      (\<lambda>config3.
                                    andThen (selectBuildMode cmdArgs config3)
                                      (\<lambda>config4.
                                         (let config5 = config4
                                                \<lparr>bazelForceEnabledModules :=
                                                   bazelForceEnabledModules config4
                                                   \<union> set (strings_Split (BazelForceEnabledModules cmdArgs) CHR '','')\<rparr>
                                          in Inr (Some config5, NewBazelContext lib config5)))))))))"

text \<open>
  \<^verbatim>\<open>func NewConfig(cmdArgs CmdArgs, availableEnv map[string]string) (Config, error)\<close>.
  The two directories are made absolute and compared as strings before anything is
  loaded. \<^verbatim>\<open>filepath.Abs\<close> asks the process for its working directory and touches no
  file, so it leaves no entry in the trace.
\<close>

definition NewConfig ::
  "('r, 'x) buildLib_scheme \<Rightarrow> CmdArgs \<Rightarrow> (string \<rightharpoonup> string) \<Rightarrow> world
     \<Rightarrow> (error + ('r config option \<times> error option)) \<times> world" where
  "NewConfig lib cmdArgs availableEnv w =
     (let config = initialConfig lib cmdArgs availableEnv in
      case filepath_Abs lib (SoongOutDir cmdArgs) of
        Inl e \<Rightarrow> (Inr (None, Some (LibraryError e)), w)
      | Inr absBuildDir \<Rightarrow>
          (case filepath_Abs lib ''.'' of
             Inl e \<Rightarrow> (Inr (None, Some (LibraryError e)), w)
           | Inr absSrcDir \<Rightarrow>
               if HasPrefix absSrcDir absBuildDir
               then (Inr (None, Some BuildDirContainsSource), w)
               else
                 (case loadConfig lib config w of
                    (Some e, config1, w1) \<Rightarrow> (Inr (None, Some e), w1)
                  | (None, config1, w1) \<Rightarrow>
                      (let KatiEnabledMarkerFile =
                             filepath_Join lib [SoongOutDir cmdArgs, ''.soong.kati_enabled'']
                       in case os_Stat (absolutePath lib KatiEnabledMarkerFile) w1 of
                            (None, w2) \<Rightarrow>
                              (resolveTargetsAndMode lib cmdArgs (config1\<lparr>katiEnabled := True\<rparr>), w2)
                          | (Some e, w2) \<Rightarrow>
                              (resolveTargetsAndMode lib cmdArgs config1, w2)))))"

subsection \<open>Mixed builds\<close>

text \<open>
  Modelled from the spec: \<^verbatim>\<open>OncePer\<close> and its method \<^verbatim>\<open>Once\<close> are defined in
  \<^verbatim>\<open>android/onceper.go\<close>. On the first call with a key, \<^verbatim>\<open>Once\<close> invokes
  \<open>compute\<close>, stores the result and returns it; on every later call with the same key
  it returns the stored result without invoking \<open>compute\<close>. Here \<open>compute\<close> is a
  closure over the configuration: it may change it, and it may panic, in which case
  nothing is stored.
\<close>

definition Once ::
  "'r config \<Rightarrow> string \<Rightarrow> ('r config \<Rightarrow> error + (onceValue \<times> 'r config))
     \<Rightarrow> error + (onceValue \<times> 'r config)" where
  "Once c key compute =
     (case once c key of
        Some v \<Rightarrow> Inr (v, c)
      | None \<Rightarrow>
          (case compute c of
             Inl e \<Rightarrow> Inl e
           | Inr (v, c') \<Rightarrow> Inr (v, c'\<lparr>once := (once c')(key \<mapsto> v)\<rparr>)))"

text \<open>The function literal that \<^verbatim>\<open>IsMixedBuildsEnabled\<close> passes to \<^verbatim>\<open>Once\<close>.\<close>

definition globalMixedBuildsSupport :: "'r config \<Rightarrow> error + (onceValue \<times> 'r config)" where
  "globalMixedBuildsSupport c =
     (if DeviceArch (productVariables c) \<noteq> None
         \<and> the (DeviceArch (productVariables c)) = ''riscv64''
      then Inr (OnceBool False, c)
      else
        (case IsEnvTrue c ''GLOBAL_THINLTO'' of
           Inl e \<Rightarrow> Inl e
         | Inr (isTrue, c') \<Rightarrow>
             if isTrue then Inr (OnceBool False, c')
             else if length (SanitizeHost (productVariables c')) > 0 then Inr (OnceBool False, c')
             else if length (SanitizeDevice (productVariables c')) > 0 then Inr (OnceBool False, c')
             else if length (SanitizeDeviceDiag (productVariables c')) > 0 then Inr (OnceBool False, c')
             else if length (SanitizeDeviceArch (productVariables c')) > 0 then Inr (OnceBool False, c')
             else Inr (OnceBool True, c')))"

text \<open>
  \<^verbatim>\<open>func (c *config) IsMixedBuildsEnabled() bool\<close>. The type assertion
  \<^verbatim>\<open>.(bool)\<close> panics on a stored value of another type.
\<close>

definition IsMixedBuildsEnabled :: "'r config \<Rightarrow> error + (bool \<times> 'r config)" where
  "IsMixedBuildsEnabled c =
     (case Once c ''globalMixedBuildsSupport'' globalMixedBuildsSupport of
        Inl e \<Rightarrow> Inl e
      | Inr (OnceBool support, c') \<Rightarrow>
          (let bazelModeEnabled =
                 (BuildMode c' = BazelProdMode \<or> BuildMode c' = BazelDevMode
                  \<or> BuildMode c' = BazelStagingMode)
           in Inr (support \<and> bazelModeEnabled, c'))
      | Inr (_, c') \<Rightarrow> Inl TypeAssertionPanic)"

text \<open>
  The configurations that the functions of this file lead to, from one whose
  \<^verbatim>\<open>OncePer\<close> holds nothing under the key of \<^verbatim>\<open>IsMixedBuildsEnabled\<close> (as it
  leaves \<^verbatim>\<open>NewConfig\<close>): by the environment accessors, by a change of the map
  behind \<^verbatim>\<open>c.env\<close>, and by \<^verbatim>\<open>IsMixedBuildsEnabled\<close> itself.
\<close>

inductive reachable :: "'r config \<Rightarrow> bool" where
  fresh: "once c ''globalMixedBuildsSupport'' = None \<Longrightarrow> reachable c"
| afterGetenv: "reachable c \<Longrightarrow> Getenv c key = Inr (v, c') \<Longrightarrow> reachable c'"
| afterEnvDeps: "reachable c \<Longrightarrow> reachable (snd (EnvDeps c))"
| afterEnvChanges: "reachable c \<Longrightarrow> reachable (c\<lparr>env := e\<rparr>)"
| afterIsMixedBuildsEnabled:
    "reachable c \<Longrightarrow> IsMixedBuildsEnabled c = Inr (b, c') \<Longrightarrow> reachable c'"

text \<open>The value that \<^verbatim>\<open>Getenv\<close> answers with for a key, when it answers.\<close>

definition envValue :: "'a envLedger_scheme \<Rightarrow> string \<Rightarrow> string" where
  "envValue c key =
     (case ledgerOf (envDeps c) key of Some v \<Rightarrow> v | None \<Rightarrow> lookupEnv (env c) key)"

text \<open>
  What the function literal of \<^verbatim>\<open>IsMixedBuildsEnabled\<close> decides, read off the
  configuration: the device is not riscv64, \<^verbatim>\<open>GLOBAL_THINLTO\<close> is not true, and no
  sanitizer list has an element.
\<close>

definition mixedBuildsSupported :: "'r config \<Rightarrow> bool" where
  "mixedBuildsSupported c =
     (DeviceArch (productVariables c) \<noteq> Some ''riscv64''
      \<and> \<not> truthy (envValue c ''GLOBAL_THINLTO'')
      \<and> SanitizeHost (productVariables c) = []
      \<and> SanitizeDevice (productVariables c) = []
      \<and> SanitizeDeviceDiag (productVariables c) = []
      \<and> SanitizeDeviceArch (productVariables c) = [])"

text \<open>
  A stored value under the key of \<^verbatim>\<open>IsMixedBuildsEnabled\<close> agrees with the
  configuration: it is the decision above, and \<^verbatim>\<open>GLOBAL_THINLTO\<close> has been read
  unless the device is riscv64.
\<close>

definition onceAgrees :: "'r config \<Rightarrow> bool" where
  "onceAgrees c =
     (case once c ''globalMixedBuildsSupport'' of
        None \<Rightarrow> True
      | Some v \<Rightarrow>
          v = OnceBool (mixedBuildsSupported c)
          \<and> (DeviceArch (productVariables c) = Some ''riscv64''
               \<or> ledgerOf (envDeps c) ''GLOBAL_THINLTO'' \<noteq> None))"

subsection \<open>Build-mode selection as the specification words it\<close>

text \<open>
  The mode-setting requests in their fixed order: whether the request is made (a
  non-empty marker, directory or file, or a true flag), the text that the message of a
  conflict shows (the argument itself for the six string arguments, the name of the
  flag for the three booleans), and the mode that the request asks for.
\<close>

definition modeRequests :: "CmdArgs \<Rightarrow> (bool \<times> string \<times> SoongBuildMode) list" where
  "modeRequests cmdArgs =
     [(SymlinkForestMarker cmdArgs \<noteq> [], SymlinkForestMarker cmdArgs, SymlinkForest),
      (Bp2buildMarker cmdArgs \<noteq> [], Bp2buildMarker cmdArgs, Bp2build),
      (BazelQueryViewDir cmdArgs \<noteq> [], BazelQueryViewDir cmdArgs, GenerateQueryView),
      (BazelApiBp2buildDir cmdArgs \<noteq> [], BazelApiBp2buildDir cmdArgs, ApiBp2build),
      (ModuleGraphFile cmdArgs \<noteq> [], ModuleGraphFile cmdArgs, GenerateModuleGraph),
      (DocFile cmdArgs \<noteq> [], DocFile cmdArgs, GenerateDocFile),
      (BazelModeDev cmdArgs, ''--bazel-mode-dev'', BazelDevMode),
      (BazelMode cmdArgs, ''--bazel-mode'', BazelProdMode),
      (BazelModeStaging cmdArgs, ''--bazel-mode-staging'', BazelStagingMode)]"

text \<open>
  The selection of the specification: no request leaves \<open>AnalysisNoBazel\<close>, a single
  request sets its mode, and with two or more requests the second one made is the
  fatal error.
\<close>

definition specSelectMode :: "CmdArgs \<Rightarrow> error + SoongBuildMode" where
  "specSelectMode cmdArgs =
     (case filter fst (modeRequests cmdArgs) of
        [] \<Rightarrow> Inr AnalysisNoBazel
      | [(_, _, mode)] \<Rightarrow> Inr mode
      | _ # (_, text, _) # _ \<Rightarrow> Inl (BuildModeAlreadySet text))"

text \<open>A list of requests served one after another, each as \<^verbatim>\<open>setBazelMode\<close> serves it.\<close>

fun serveRequests :: "(bool \<times> string \<times> SoongBuildMode) list \<Rightarrow> 'r config \<Rightarrow> error + 'r config" where
  "serveRequests [] config = Inr config"
| "serveRequests ((arg, argName, mode) # rest) config =
     andThen (setBazelMode arg argName mode config) (serveRequests rest)"

subsection \<open>An instance to run the functions on\<close>

text \<open>
  A small instance of the parameters, on which the functions above are run on concrete
  inputs: paths are joined with a slash and taken as they are, the defaults are the
  zero store (which sets no derived field), and the device has a 64-bit and a 32-bit
  architecture. The encoder writes the coverage options and the two derived fields
  of a store that has no other field set, as \<^verbatim>\<open>json.MarshalIndent\<close> does when every field is declared with
  \<^verbatim>\<open>omitempty\<close>: the zero store is \<^verbatim>\<open>{}\<close>.
\<close>

definition jsonString :: "string \<Rightarrow> string" where
  "jsonString s = [CHR 0x22] @ s @ [CHR 0x22]"

definition jsonBool :: "bool \<Rightarrow> string" where
  "jsonBool b = (if b then ''true'' else ''false'')"

definition jsonMember :: "string \<Rightarrow> string \<Rightarrow> string" where
  "jsonMember name v = ''    '' @ jsonString name @ '': '' @ v"

definition exampleMembers :: "unit productVariables \<Rightarrow> string list" where
  "exampleMembers v =
     (case Platform_sdk_version_or_codename v of
        None \<Rightarrow> []
      | Some s \<Rightarrow> [jsonMember ''Platform_sdk_version_or_codename'' (jsonString s)])
     @ (case ClangCoverage v of
          None \<Rightarrow> []
        | Some b \<Rightarrow> [jsonMember ''ClangCoverage'' (jsonBool b)])
     @ (case GcovCoverage v of
          None \<Rightarrow> []
        | Some b \<Rightarrow> [jsonMember ''GcovCoverage'' (jsonBool b)])
     @ (case Native_coverage v of
          None \<Rightarrow> []
        | Some b \<Rightarrow> [jsonMember ''Native_coverage'' (jsonBool b)])"

definition exampleMarshal :: "unit productVariables \<Rightarrow> string + string" where
  "exampleMarshal v =
     (if v\<lparr>Native_coverage := None, Platform_sdk_version_or_codename := None,
            ClangCoverage := None, GcovCoverage := None\<rparr> = zeroVariables ()
      then (if exampleMembers v = [] then Inr ''{}''
            else Inr (''{'' @ newline @ strings_Join (exampleMembers v) ('','' @ newline)
                        @ newline @ ''}''))
      else Inl ''unsupported value'')"

text \<open>
  The documents that the example decoder reads: the empty object, and the objects
  that set the two coverage options.
\<close>

definition coverageDocument :: "bool \<Rightarrow> bool \<Rightarrow> string" where
  "coverageDocument gcov clang =
     ''{'' @ jsonString ''GcovCoverage'' @ '': '' @ jsonBool gcov @ '', ''
       @ jsonString ''ClangCoverage'' @ '': '' @ jsonBool clang @ ''}'' @ newline"

definition exampleDecode ::
  "string \<Rightarrow> unit productVariables \<Rightarrow> string option \<times> unit productVariables" where
  "exampleDecode d v =
     (if d = ''{}'' @ newline then (None, v)
      else (case find (\<lambda>(gcov, clang). d = coverageDocument gcov clang)
                   [(True, True), (True, False), (False, True), (False, False)] of
              Some (gcov, clang) \<Rightarrow>
                (None, v\<lparr>GcovCoverage := Some gcov, ClangCoverage := Some clang\<rparr>)
            | None \<Rightarrow> (Some ''invalid character'', v)))"

definition exampleDir :: "string \<Rightarrow> string" where
  "exampleDir p = rev (tl (dropWhile (\<lambda>c. c \<noteq> CHR ''/'') (rev p)))"

definition arm64 :: Target where
  "arm64 = \<lparr>Os = Android,
            Arch = \<lparr>ArchType = \<lparr>Name = ''arm64'', Field = ''Arm64'', Multilib = ''lib64''\<rparr>,
                    ArchVariant = ''armv8-a''\<rparr>\<rparr>"

definition arm :: Target where
  "arm = \<lparr>Os = Android,
          Arch = \<lparr>ArchType = \<lparr>Name = ''arm'', Field = ''Arm'', Multilib = ''lib32''\<rparr>,
                  ArchVariant = ''armv7-a-neon''\<rparr>\<rparr>"

definition x86_64 :: Target where
  "x86_64 = \<lparr>Os = Android,
             Arch = \<lparr>ArchType = \<lparr>Name = ''x86_64'', Field = ''X86_64'', Multilib = ''lib64''\<rparr>,
                     ArchVariant = []\<rparr>\<rparr>"

definition linux_x86_64 :: Target where
  "linux_x86_64 = \<lparr>Os = HostOs ''linux_glibc'',
             Arch = \<lparr>ArchType = \<lparr>Name = ''x86_64'', Field = ''X86_64'', Multilib = ''lib64''\<rparr>,
                     ArchVariant = []\<rparr>\<rparr>"

definition exampleLib :: "unit buildLib" where
  "exampleLib =
     \<lparr>zeroOtherVariables = (),
      SetDefaultConfig = (\<lambda>v. zeroVariables ()),
      json_MarshalIndent = exampleMarshal,
      json_Decode = exampleDecode,
      filepath_Dir = exampleDir,
      filepath_Join = (\<lambda>parts. strings_Join parts ''/''),
      strings_ToLower = (\<lambda>s. s),
      SoongInjectionDirName = ''soong_injection'',
      GeneratedBazelFileWarning = ''# GENERATED FOR BAZEL FROM SOONG. DO NOT EDIT.'',
      productVariableFields = [(''platform_sdk_version'', False), (''debuggable'', True)],
      PrintStringList = (\<lambda>xs indent. ''['' @ strings_Join xs '', '' @ '']''),
      filepath_Abs = (\<lambda>p. if p = ''.'' then Inr ''/src'' else Inr p),
      absolutePath = (\<lambda>p. p),
      determineBuildOS = (\<lambda>c. Inr (HostOs ''linux_glibc'', ArchType (Arch linux_x86_64))),
      decodeTargetProductVariables =
        (\<lambda>c. Inr (\<lambda>os. if os = Android then [arm64, arm]
                         else if os = HostOs ''linux_glibc'' then [linux_x86_64]
                         else [])),
      commonOSTarget = zeroTarget\<lparr>Os := CommonOS\<rparr>,
      getNdkAbisConfig = [],
      getAmlAbisConfig = [],
      decodeAndroidArchSettings = (\<lambda>ac. Inr []),
      getCommonTargets = (\<lambda>ts. take 1 ts),
      FirstTarget = (\<lambda>ts filters. take 1 ts),
      NewBazelContext = (\<lambda>c. None)\<rparr>"

definition exampleArgs :: CmdArgs where
  "exampleArgs =
     \<lparr>ModuleListFile = [], RunGoTests = False, OutDir = ''/out'', SoongOutDir = ''/out/soong'',
      SymlinkForestMarker = [], Bp2buildMarker = [], BazelQueryViewDir = [],
      BazelApiBp2buildDir = [], ModuleGraphFile = [], ModuleActionsFile = [], DocFile = [],
      MultitreeBuildArg = False, BazelMode = False, BazelModeDev = False,
      BazelModeStaging = False, BazelForceEnabledModules = [], UseBazelProxyArg = False,
      BuildFromTextStub = False\<rparr>"

definition exampleWorld :: world where
  "exampleWorld =
     \<lparr>files = Map.empty, fault = (\<lambda>call. None),
      tempName = (\<lambda>dir pattern. dir @ ''/'' @ pattern @ ''123''), trace = []\<rparr>"

subsection \<open>The derived fields and the exported files\<close>

text \<open>
  The store with its two derived fields computed, as the specification words steps 4
  and 5 of the load: native coverage is the disjunction of the two coverage options,
  and the SDK version or codename is the decimal version when the final flag is set
  and the codename otherwise. (With the final flag set and no version, the load fails
  after the first of the two.)
\<close>

definition withDerivedFields :: "'r productVariables \<Rightarrow> 'r productVariables" where
  "withDerivedFields c =
     c\<lparr>Native_coverage := Some (Bool (GcovCoverage c) \<or> Bool (ClangCoverage c)),
       Platform_sdk_version_or_codename :=
         (if Bool (Platform_sdk_final c)
          then (case Platform_sdk_version c of
                  Some v \<Rightarrow> Some (Itoa v)
                | None \<Rightarrow> Platform_sdk_version_or_codename c)
          else Some (String (Platform_sdk_codename c)))\<rparr>"

text \<open>The paths of the three files that \<^verbatim>\<open>saveToBazelConfigFile\<close> writes.\<close>

definition bazelConfigFiles :: "('r, 'x) storeLib_scheme \<Rightarrow> string \<Rightarrow> string list" where
  "bazelConfigFiles lib dir0 =
     (let dir = filepath_Join lib [dir0, SoongInjectionDirName lib, ''product_config''] in
      [filepath_Join lib [dir, ''product_variables.bzl''],
       filepath_Join lib [dir, ''product_variable_constants.bzl''],
       filepath_Join lib [dir, ''BUILD'']])"

subsection \<open>Absolute paths and their ancestors\<close>

text \<open>
  The text of a clean absolute path, as \<^verbatim>\<open>filepath.Abs\<close> returns it, from its
  components: a slash before each component, and a single slash for the root. A
  directory is an ancestor of a path, in the wide sense that counts the path itself,
  when its components are the first components of the path.
\<close>

definition renderPath :: "string list \<Rightarrow> string" where
  "renderPath cs = (if cs = [] then ''/'' else concat (map (\<lambda>c. CHR ''/'' # c) cs))"

definition isAncestor :: "string list \<Rightarrow> string list \<Rightarrow> bool" where
  "isAncestor bs ss = (take (length bs) ss = bs)"

subsection \<open>An instance with defaults that are not zero\<close>

text \<open>
  A second instance, for loading a file that does not exist: the defaults set the SDK
  version, the codename, the final flag and the device architecture, and no derived
  field. The encoder writes the scalar fields of the record that are set, one member
  each; the decoder reads the text of a store of \<open>exampleStores\<close> followed by a newline,
  and a member it reads replaces the field of the store it decodes into.
\<close>

definition exampleDefaults :: "unit productVariables" where
  "exampleDefaults =
     (zeroVariables ())\<lparr>Platform_sdk_version := Some 30, Platform_sdk_codename := Some ''S'',
                        Platform_sdk_final := Some False, DeviceArch := Some ''arm64''\<rparr>"

definition optionMember :: "string \<Rightarrow> ('a \<Rightarrow> string) \<Rightarrow> 'a option \<Rightarrow> string list" where
  "optionMember name render v = (case v of None \<Rightarrow> [] | Some x \<Rightarrow> [jsonMember name (render x)])"

definition storeMembers :: "unit productVariables \<Rightarrow> string list" where
  "storeMembers v =
     optionMember ''Platform_sdk_version'' Itoa (Platform_sdk_version v)
     @ optionMember ''Platform_sdk_codename'' jsonString (Platform_sdk_codename v)
     @ optionMember ''Platform_sdk_version_or_codename'' jsonString
         (Platform_sdk_version_or_codename v)
     @ optionMember ''Platform_sdk_final'' jsonBool (Platform_sdk_final v)
     @ optionMember ''DeviceArch'' jsonString (DeviceArch v)
     @ optionMember ''ClangCoverage'' jsonBool (ClangCoverage v)
     @ optionMember ''GcovCoverage'' jsonBool (GcovCoverage v)
     @ optionMember ''Native_coverage'' jsonBool (Native_coverage v)"

definition storeMarshal :: "unit productVariables \<Rightarrow> string + string" where
  "storeMarshal v =
     (if SanitizeHost v = [] \<and> SanitizeDevice v = [] \<and> SanitizeDeviceDiag v = []
         \<and> SanitizeDeviceArch v = [] \<and> Ndk_abis v = None \<and> Aml_abis v = None
      then (if storeMembers v = [] then Inr ''{}''
            else Inr (''{'' @ newline @ strings_Join (storeMembers v) ('','' @ newline)
                        @ newline @ ''}''))
      else Inl ''unsupported value'')"

definition orElse :: "'a option \<Rightarrow> 'a option \<Rightarrow> 'a option" where
  "orElse read old = (case read of None \<Rightarrow> old | Some x \<Rightarrow> Some x)"

definition decodeInto :: "unit productVariables \<Rightarrow> unit productVariables \<Rightarrow> unit productVariables" where
  "decodeInto s v =
     v\<lparr>Platform_sdk_version := orElse (Platform_sdk_version s) (Platform_sdk_version v),
       Platform_sdk_codename := orElse (Platform_sdk_codename s) (Platform_sdk_codename v),
       Platform_sdk_version_or_codename :=
         orElse (Platform_sdk_version_or_codename s) (Platform_sdk_version_or_codename v),
       Platform_sdk_final := orElse (Platform_sdk_final s) (Platform_sdk_final v),
       DeviceArch := orElse (DeviceArch s) (DeviceArch v),
       ClangCoverage := orElse (ClangCoverage s) (ClangCoverage v),
       GcovCoverage := orElse (GcovCoverage s) (GcovCoverage v),
       Native_coverage := orElse (Native_coverage s) (Native_coverage v)\<rparr>"

definition exampleStores :: "unit productVariables list" where
  "exampleStores = [zeroVariables (), exampleDefaults, withDerivedFields exampleDefaults]"

definition storeDecode ::
  "string \<Rightarrow> unit productVariables \<Rightarrow> string option \<times> unit productVariables" where
  "storeDecode d v =
     (case find (\<lambda>s. case storeMarshal s of Inl e \<Rightarrow> False | Inr t \<Rightarrow> d = t @ newline)
                exampleStores of
        Some s \<Rightarrow> (None, decodeInto s v)
      | None \<Rightarrow> (Some ''invalid character'', v))"

definition defaultsLib :: "unit buildLib" where
  "defaultsLib =
     exampleLib\<lparr>SetDefaultConfig := (\<lambda>v. exampleDefaults),
                json_MarshalIndent := storeMarshal,
                json_Decode := storeDecode\<rparr>"

section \<open>Properties\<close>

subsection \<open>The environment ledger\<close>

lemma Getenv_hit:
  "envDeps c = Some m \<Longrightarrow> m key = Some v \<Longrightarrow> Getenv c key = Inr (v, c)"
  by (simp add: Getenv_def ledgerOf_def)

lemma Getenv_ledger_hit:
  "ledgerOf (envDeps c) key = Some v \<Longrightarrow> Getenv c key = Inr (v, c)"
  by (auto simp: ledgerOf_def intro: Getenv_hit split: option.splits)

lemma Getenv_Inr:
  assumes "Getenv c key = Inr (v, c')"
  shows "ledgerOf (envDeps c') key = Some v \<and> envDeps c' \<noteq> None
     \<and> envFrozen c' = envFrozen c \<and> env c' = env c
     \<and> (\<forall>k w. ledgerOf (envDeps c) k = Some w \<longrightarrow> ledgerOf (envDeps c') k = Some w)
     \<and> (envFrozen c \<longrightarrow> envDeps c' = envDeps c)
     \<and> (ledgerOf (envDeps c) key = None \<longrightarrow> v = lookupEnv (env c) key)"
  using assms
  by (auto simp: Getenv_def ledgerOf_def Let_def split: option.splits if_splits)

lemma Getenv_returns:
  "\<not> envFrozen c \<or> ledgerOf (envDeps c) key \<noteq> None \<Longrightarrow> \<exists>v c'. Getenv c key = Inr (v, c')"
  by (auto simp: Getenv_def Let_def ledgerOf_def split: option.splits)

lemma Getenv_panics:
  "envFrozen c \<Longrightarrow> ledgerOf (envDeps c) key = None \<Longrightarrow> Getenv c key = Inl EnvFrozenPanic"
  by (auto simp: Getenv_def Let_def ledgerOf_def split: option.splits)

lemma envCalls_keeps:
  "envCalls c calls = Inr c' \<Longrightarrow> ledgerOf (envDeps c) k = Some v
     \<Longrightarrow> ledgerOf (envDeps c') k = Some v"
proof (induction c calls rule: envCalls.induct)
  case (2 c key rest)
  then show ?case by (auto split: sum.splits dest!: Getenv_Inr)
qed (auto simp: EnvDeps_def)

lemma envCalls_frozen:
  "envCalls c calls = Inr c' \<Longrightarrow> envFrozen c \<Longrightarrow> envFrozen c' \<and> envDeps c' = envDeps c"
proof (induction c calls rule: envCalls.induct)
  case (2 c key rest)
  then show ?case by (auto split: sum.splits dest!: Getenv_Inr)
qed (auto simp: EnvDeps_def)

text \<open>
  C1. A call of \<^verbatim>\<open>Getenv\<close> on a ledger that is not frozen, or for a name the ledger
  already holds, returns a string: the recorded value, or for a new name the value of
  the name in \<^verbatim>\<open>c.env\<close> (the empty string if the name is absent there), which it
  records. Whatever calls of \<^verbatim>\<open>Getenv\<close> and \<^verbatim>\<open>EnvDeps\<close> and whatever changes of
  the environment map follow, every later call of \<^verbatim>\<open>Getenv\<close> with that name returns
  the same string and leaves the configuration as it is.
\<close>

theorem Getenv_single_read:
  assumes "\<not> envFrozen c \<or> ledgerOf (envDeps c) key \<noteq> None"
  shows "\<exists>v c1. Getenv c key = Inr (v, c1)
           \<and> (ledgerOf (envDeps c) key = None \<longrightarrow> v = lookupEnv (env c) key)
           \<and> ledgerOf (envDeps c1) key = Some v
           \<and> (\<forall>calls c2. envCalls c1 calls = Inr c2 \<longrightarrow> Getenv c2 key = Inr (v, c2))"
proof -
  from assms obtain v c1 where first: "Getenv c key = Inr (v, c1)"
    using Getenv_returns by blast
  then have l1: "ledgerOf (envDeps c1) key = Some v"
    and new: "ledgerOf (envDeps c) key = None \<longrightarrow> v = lookupEnv (env c) key"
    by (simp_all add: Getenv_Inr)
  have stable: "Getenv c2 key = Inr (v, c2)" if "envCalls c1 calls = Inr c2" for calls c2
    using that l1 by (intro Getenv_ledger_hit) (rule envCalls_keeps)
  show ?thesis
  proof (intro exI conjI allI impI)
    show "Getenv c key = Inr (v, c1)" by (rule first)
    show "v = lookupEnv (env c) key" if "ledgerOf (envDeps c) key = None"
      using that new by simp
    show "ledgerOf (envDeps c1) key = Some v" by (rule l1)
    show "Getenv c2 key = Inr (v, c2)" if "envCalls c1 calls = Inr c2" for calls c2
      using that by (rule stable)
  qed
qed

theorem Getenv_single_read_witness:
  "Getenv \<lparr>env = [''A'' \<mapsto> ''2''], envDeps = Some [''A'' \<mapsto> ''1'', ''B'' \<mapsto> []], envFrozen = True\<rparr> ''A''
     = Inr (''1'', \<lparr>env = [''A'' \<mapsto> ''2''], envDeps = Some [''A'' \<mapsto> ''1'', ''B'' \<mapsto> []], envFrozen = True\<rparr>)"
proof -
  let ?c = "\<lparr>env = [''A'' \<mapsto> ''1''], envDeps = None, envFrozen = False\<rparr>"
  let ?c1 = "\<lparr>env = [''A'' \<mapsto> ''1''], envDeps = Some [''A'' \<mapsto> ''1''], envFrozen = False\<rparr>"
  let ?c2 = "\<lparr>env = [''A'' \<mapsto> ''2''], envDeps = Some [''A'' \<mapsto> ''1'', ''B'' \<mapsto> []], envFrozen = True\<rparr>"
  have pre: "\<not> envFrozen ?c \<or> ledgerOf (envDeps ?c) ''A'' \<noteq> None"
    by simp
  have first: "Getenv ?c ''A'' = Inr (''1'', ?c1)"
    by (simp add: Getenv_def ledgerOf_def lookupEnv_def Let_def)
  have later: "envCalls ?c1 [EnvChanges [''A'' \<mapsto> ''2''], CallGetenv ''B'', CallEnvDeps] = Inr ?c2"
    by (simp add: Getenv_def ledgerOf_def lookupEnv_def EnvDeps_def Let_def)
  from Getenv_single_read [OF pre] first later show ?thesis
    by (metis Inr_inject prod.inject)
qed

text \<open>
  C2. \<^verbatim>\<open>EnvDeps\<close> returns the ledger accumulated so far and sets the frozen flag.
  After a call of \<^verbatim>\<open>EnvDeps\<close>, whatever calls of \<^verbatim>\<open>Getenv\<close> and \<^verbatim>\<open>EnvDeps\<close> and
  whatever changes of the environment map follow without a panic, the flag stays set,
  another call of \<^verbatim>\<open>EnvDeps\<close> returns the same mapping and changes nothing,
  \<^verbatim>\<open>Getenv\<close> for a name that is not in the ledger panics, and \<^verbatim>\<open>Getenv\<close> for a name
  of the ledger returns its recorded value.
\<close>

theorem EnvDeps_freezes:
  assumes freeze: "EnvDeps c = (m, c1)"
      and later: "envCalls c1 calls = Inr c2"
  shows "m = envDeps c \<and> envFrozen c1
       \<and> EnvDeps c2 = (m, c2) \<and> envFrozen c2
       \<and> (\<forall>key. ledgerOf m key = None \<longrightarrow> Getenv c2 key = Inl EnvFrozenPanic)
       \<and> (\<forall>key v. ledgerOf m key = Some v \<longrightarrow> Getenv c2 key = Inr (v, c2))"
proof -
  from freeze have c1: "envFrozen c1" "envDeps c1 = m" "m = envDeps c"
    by (auto simp: EnvDeps_def)
  from envCalls_frozen [OF later c1(1)] c1 have c2: "envFrozen c2" "envDeps c2 = m"
    by simp_all
  have "EnvDeps c2 = (m, c2)"
    using c2 by (simp add: EnvDeps_def)
  moreover have "\<forall>key. ledgerOf m key = None \<longrightarrow> Getenv c2 key = Inl EnvFrozenPanic"
    using c2 by (simp add: Getenv_panics)
  moreover have "\<forall>key v. ledgerOf m key = Some v \<longrightarrow> Getenv c2 key = Inr (v, c2)"
    using c2 by (simp add: Getenv_ledger_hit)
  ultimately show ?thesis using c1 c2 by simp
qed

theorem EnvDeps_freezes_witness:
  "EnvDeps \<lparr>env = [''A'' \<mapsto> ''2''], envDeps = Some [''A'' \<mapsto> ''1''], envFrozen = True\<rparr>
     = (Some [''A'' \<mapsto> ''1''], \<lparr>env = [''A'' \<mapsto> ''2''], envDeps = Some [''A'' \<mapsto> ''1''], envFrozen = True\<rparr>)
   \<and> Getenv \<lparr>env = [''A'' \<mapsto> ''2''], envDeps = Some [''A'' \<mapsto> ''1''], envFrozen = True\<rparr> ''B''
     = Inl EnvFrozenPanic
   \<and> Getenv \<lparr>env = [''A'' \<mapsto> ''2''], envDeps = Some [''A'' \<mapsto> ''1''], envFrozen = True\<rparr> ''A''
     = Inr (''1'', \<lparr>env = [''A'' \<mapsto> ''2''], envDeps = Some [''A'' \<mapsto> ''1''], envFrozen = True\<rparr>)"
proof -
  let ?c = "\<lparr>env = [''A'' \<mapsto> ''1''], envDeps = Some [''A'' \<mapsto> ''1''], envFrozen = False\<rparr>"
  let ?c1 = "\<lparr>env = [''A'' \<mapsto> ''1''], envDeps = Some [''A'' \<mapsto> ''1''], envFrozen = True\<rparr>"
  let ?c2 = "\<lparr>env = [''A'' \<mapsto> ''2''], envDeps = Some [''A'' \<mapsto> ''1''], envFrozen = True\<rparr>"
  have freeze: "EnvDeps ?c = (Some [''A'' \<mapsto> ''1''], ?c1)"
    by (simp add: EnvDeps_def)
  have later: "envCalls ?c1 [CallGetenv ''A'', EnvChanges [''A'' \<mapsto> ''2''], CallEnvDeps] = Inr ?c2"
    by (simp add: Getenv_def ledgerOf_def EnvDeps_def)
  have a: "ledgerOf (Some [''A'' \<mapsto> ''1'']) ''B'' = None"
    by (simp add: ledgerOf_def)
  have b: "ledgerOf (Some [''A'' \<mapsto> ''1'']) ''A'' = Some ''1''"
    by (simp add: ledgerOf_def)
  from EnvDeps_freezes [OF freeze later] a b show ?thesis by blast
qed

subsection \<open>Build-mode selection\<close>

lemma setBuildMode_as_setBazelMode:
  "setBuildMode arg mode config = setBazelMode (arg \<noteq> []) arg mode config"
  by (simp add: setBuildMode_def setBazelMode_def)

lemma selectBuildMode_serves:
  "selectBuildMode cmdArgs config = serveRequests (modeRequests cmdArgs) config"
  by (simp add: selectBuildMode_def modeRequests_def setBuildMode_as_setBazelMode andThen_def
      split: sum.splits)

lemma serveRequests_mode_set:
  "BuildMode config \<noteq> AnalysisNoBazel \<Longrightarrow>
   serveRequests rs config =
     (case filter fst rs of
        [] \<Rightarrow> Inr config
      | (_, text, _) # _ \<Rightarrow> Inl (BuildModeAlreadySet text))"
  by (induction rs config rule: serveRequests.induct)
     (auto simp: setBazelMode_def andThen_def)

lemma serveRequests_fresh:
  "BuildMode config = AnalysisNoBazel \<Longrightarrow>
   \<forall>r \<in> set rs. snd (snd r) \<noteq> AnalysisNoBazel \<Longrightarrow>
   serveRequests rs config =
     (case filter fst rs of
        [] \<Rightarrow> Inr config
      | [(_, _, mode)] \<Rightarrow> Inr (config\<lparr>BuildMode := mode\<rparr>)
      | _ # (_, text, _) # _ \<Rightarrow> Inl (BuildModeAlreadySet text))"
proof (induction rs config rule: serveRequests.induct)
  case (1 config)
  then show ?case by simp
next
  case (2 arg argName mode rest config)
  show ?case
  proof (cases arg)
    case True
    have "mode \<noteq> AnalysisNoBazel" using 2(3) by simp
    then have "BuildMode (config\<lparr>BuildMode := mode\<rparr>) \<noteq> AnalysisNoBazel" by simp
    from serveRequests_mode_set [OF this, of rest] True 2(2) show ?thesis
      by (auto simp: setBazelMode_def andThen_def split: list.splits)
  next
    case False
    with 2 show ?thesis by (simp add: setBazelMode_def andThen_def)
  qed
qed

lemma modeRequests_modes:
  "\<forall>r \<in> set (modeRequests cmdArgs). snd (snd r) \<noteq> AnalysisNoBazel"
  by (simp add: modeRequests_def)

lemma selectBuildMode_spec:
  assumes "BuildMode config = AnalysisNoBazel"
  shows "selectBuildMode cmdArgs config =
     (case specSelectMode cmdArgs of
        Inl e \<Rightarrow> Inl e
      | Inr mode \<Rightarrow> Inr (config\<lparr>BuildMode := mode\<rparr>))"
proof -
  have same: "config\<lparr>BuildMode := AnalysisNoBazel\<rparr> = config"
    using assms by simp
  show ?thesis
    unfolding selectBuildMode_serves specSelectMode_def
      serveRequests_fresh [OF assms modeRequests_modes]
    using same by (auto split: list.splits)
qed

lemma initialConfig_mode:
  "BuildMode (initialConfig lib cmdArgs availableEnv) = AnalysisNoBazel"
  by (simp add: initialConfig_def)

lemma loadConfig_mode:
  "loadConfig lib config w = (err, config', w') \<Longrightarrow> BuildMode config' = BuildMode config"
  by (auto simp: loadConfig_def split: prod.splits)

lemma androidTargetSlots_mode:
  "androidTargetSlots lib config = Inr config' \<Longrightarrow> BuildMode config' = BuildMode config"
  by (auto simp: androidTargetSlots_def split: if_splits list.splits)

lemma resolveTargetsAndMode_mode:
  assumes "resolveTargetsAndMode lib cmdArgs (config0 :: 'r config) = Inr (Some c, err)"
      and "BuildMode config0 = AnalysisNoBazel"
  shows "specSelectMode cmdArgs = Inr (BuildMode c)"
proof -
  from assms(1) have "\<exists>(config3 :: 'r config) config4.
      selectBuildMode cmdArgs config3 = Inr config4
      \<and> BuildMode config3 = BuildMode config0 \<and> BuildMode c = BuildMode config4"
    unfolding resolveTargetsAndMode_def Let_def andThen_def
    by (auto split: sum.splits prod.splits list.splits option.splits if_splits
             dest!: androidTargetSlots_mode) blast+
  then obtain config3 :: "'r config" and config4 where
      sel: "selectBuildMode cmdArgs config3 = Inr config4"
      and m3: "BuildMode config3 = BuildMode config0"
      and m4: "BuildMode c = BuildMode config4"
    by blast
  from m3 assms(2) have "BuildMode config3 = AnalysisNoBazel" by simp
  from selectBuildMode_spec [OF this, of cmdArgs] sel m4 show ?thesis
    by (auto split: sum.splits)
qed

lemma NewConfig_mode:
  assumes "NewConfig lib cmdArgs availableEnv w = (Inr (Some c, err), w')"
  shows "specSelectMode cmdArgs = Inr (BuildMode c)"
proof -
  from assms have "\<exists>config1.
      resolveTargetsAndMode lib cmdArgs config1 = Inr (Some c, err)
      \<and> BuildMode config1 = AnalysisNoBazel"
    unfolding NewConfig_def Let_def
    by (auto split: sum.splits prod.splits option.splits if_splits
             dest!: loadConfig_mode simp: initialConfig_mode)
  then show ?thesis using resolveTargetsAndMode_mode by blast
qed

lemmas example_defs =
  exampleLib_def exampleArgs_def exampleWorld_def exampleDir_def exampleMarshal_def
  exampleMembers_def exampleDecode_def coverageDocument_def jsonString_def jsonBool_def
  jsonMember_def arm64_def arm_def x86_64_def linux_x86_64_def
  zeroTarget_def zeroArchType_def zeroVariables_def productVariablesFileName_def
  newline_def Bool_def String_def Let_def

lemmas io_defs =
  os_Open_def os_CreateTemp_def file_Write_def file_Close_def os_Rename_def os_Remove_def
  os_Stat_def pathtools_WriteFileIfChanged_def createDirIfNonexistent_def logCall_def
  closeAndRemove_def

lemmas load_defs =
  loadConfig_def loadFromConfigFile_def saveToConfigFile_def saveToBazelConfigFile_def
  deriveAndExport_def

lemmas construct_defs =
  NewConfig_def initialConfig_def resolveTargetsAndMode_def androidTargetSlots_def
  selectBuildMode_def setBuildMode_def setBazelMode_def andThen_def NdkAbis_def AmlAbis_def

text \<open>
  C3. A configuration starts in \<open>AnalysisNoBazel\<close>. From that mode, the nine calls at the
  end of \<^verbatim>\<open>NewConfig\<close> walk the requests in the fixed order (symlink-forest marker,
  bp2build marker, query-view directory, API-bp2build directory, module-graph file,
  doc file, bazel-mode-dev, bazel-mode, bazel-mode-staging): with no request the mode
  stays \<open>AnalysisNoBazel\<close>, with one request its mode is set, and with more the second
  request ends the process with the message that shows its argument. A configuration
  that \<^verbatim>\<open>NewConfig\<close> returns has the mode selected so.
\<close>

theorem build_mode_selection:
  fixes lib :: "('r, 'x) buildLib_scheme"
  shows "BuildMode (initialConfig lib cmdArgs availableEnv) = AnalysisNoBazel
   \<and> (\<forall>config :: 'r config. BuildMode config = AnalysisNoBazel \<longrightarrow>
         selectBuildMode cmdArgs config =
           (case specSelectMode cmdArgs of
              Inl e \<Rightarrow> Inl e
            | Inr mode \<Rightarrow> Inr (config\<lparr>BuildMode := mode\<rparr>)))
   \<and> (\<forall>c err w'. NewConfig lib cmdArgs availableEnv w = (Inr (Some c, err), w') \<longrightarrow>
         specSelectMode cmdArgs = Inr (BuildMode c))"
  using initialConfig_mode selectBuildMode_spec NewConfig_mode by blast

theorem build_mode_selection_witness:
  "selectBuildMode (exampleArgs\<lparr>Bp2buildMarker := ''m'', BazelQueryViewDir := ''q''\<rparr>)
     (initialConfig exampleLib exampleArgs Map.empty) = Inl (BuildModeAlreadySet ''q'')
   \<and> specSelectMode (exampleArgs\<lparr>Bp2buildMarker := ''m''\<rparr>) = Inr Bp2build"
proof -
  let ?two = "exampleArgs\<lparr>Bp2buildMarker := ''m'', BazelQueryViewDir := ''q''\<rparr>"
  let ?one = "exampleArgs\<lparr>Bp2buildMarker := ''m''\<rparr>"
  have start: "BuildMode (initialConfig exampleLib exampleArgs Map.empty) = AnalysisNoBazel"
    by (simp add: initialConfig_def)
  have two: "specSelectMode ?two = Inl (BuildModeAlreadySet ''q'')"
    by (simp add: specSelectMode_def modeRequests_def exampleArgs_def)
  have run: "\<exists>c w'. NewConfig exampleLib ?one Map.empty exampleWorld = (Inr (Some c, None), w')
               \<and> BuildMode c = Bp2build"
    by (simp add: construct_defs load_defs io_defs example_defs)
  from build_mode_selection [of exampleLib ?two Map.empty exampleWorld] start two
  have first: "selectBuildMode ?two (initialConfig exampleLib exampleArgs Map.empty)
      = Inl (BuildModeAlreadySet ''q'')"
    by simp
  from build_mode_selection [of exampleLib ?one Map.empty exampleWorld] run
  have second: "specSelectMode ?one = Inr Bp2build"
    by auto
  from first second show ?thesis by simp
qed

subsection \<open>Loading the product variables\<close>

lemma saveToBazelConfigFile_errors:
  "saveToBazelConfigFile lib vars dir0 w = (Some e, w') \<Longrightarrow>
     (\<exists>dir x. e = CreateDirError dir x) \<or> (\<exists>x. e = MarshalError x)
     \<or> (\<exists>x. e = BzlWriteError x) \<or> (\<exists>x. e = BuildWriteError x)"
  by (auto simp: saveToBazelConfigFile_def Let_def split: prod.splits option.splits sum.splits)

lemma deriveAndExport_both:
  "Bool (GcovCoverage c) \<and> Bool (ClangCoverage c) \<Longrightarrow>
   deriveAndExport lib c filename w = (Some CoverageBothSet, c, w)"
  by (simp add: deriveAndExport_def)

lemma deriveAndExport_not_both:
  assumes "\<not> (Bool (GcovCoverage c) \<and> Bool (ClangCoverage c))"
      and "deriveAndExport lib c filename w = (err, c', w')"
  shows "err \<noteq> Some CoverageBothSet
       \<and> Native_coverage c' = Some (Bool (GcovCoverage c) \<or> Bool (ClangCoverage c))
       \<and> GcovCoverage c' = GcovCoverage c \<and> ClangCoverage c' = ClangCoverage c"
  using assms
  by (auto simp: deriveAndExport_def Let_def
           split: if_splits option.splits prod.splits
           dest!: saveToBazelConfigFile_errors)

lemma loadFromConfigFile_second_half:
  assumes "(os_Open filename w = (Opened d, w1) \<and> json_Decode lib d v = (None, c1))
         \<or> (os_Open filename w = (NotExist, w0) \<and> c1 = SetDefaultConfig lib v
              \<and> saveToConfigFile lib c1 filename w0 = (None, w1))"
  shows "fst (loadFromConfigFile lib v filename w) = fst (deriveAndExport lib c1 filename w1)
        \<and> fst (snd (loadFromConfigFile lib v filename w)) = fst (snd (deriveAndExport lib c1 filename w1))"
  using assms
  by (auto simp: loadFromConfigFile_def Let_def split: prod.splits)

text \<open>
  C4. Take the store as the first half of \<^verbatim>\<open>loadFromConfigFile\<close> leaves it: decoded
  from the file, or the defaults when there is no file and they have been saved. If
  \<^verbatim>\<open>GcovCoverage\<close> and \<^verbatim>\<open>ClangCoverage\<close> are both true in it, the load returns the
  error that they cannot both be set. Otherwise the load does not return that error,
  and the store it leaves has \<^verbatim>\<open>Native_coverage\<close> set to the disjunction of the two.
\<close>

theorem coverage_options_exclusive:
  assumes "(os_Open filename w = (Opened d, w1) \<and> json_Decode lib d v = (None, c1))
         \<or> (os_Open filename w = (NotExist, w0) \<and> c1 = SetDefaultConfig lib v
              \<and> saveToConfigFile lib c1 filename w0 = (None, w1))"
  shows "(Bool (GcovCoverage c1) \<and> Bool (ClangCoverage c1) \<longrightarrow>
            fst (loadFromConfigFile lib v filename w) = Some CoverageBothSet)
       \<and> (\<not> (Bool (GcovCoverage c1) \<and> Bool (ClangCoverage c1)) \<longrightarrow>
            fst (loadFromConfigFile lib v filename w) \<noteq> Some CoverageBothSet
            \<and> Native_coverage (fst (snd (loadFromConfigFile lib v filename w)))
                = Some (Bool (GcovCoverage c1) \<or> Bool (ClangCoverage c1)))"
proof -
  note half = loadFromConfigFile_second_half [OF assms]
  obtain err c' w' where d: "deriveAndExport lib c1 filename w1 = (err, c', w')"
    by (cases "deriveAndExport lib c1 filename w1") auto
  show ?thesis
  proof (cases "Bool (GcovCoverage c1) \<and> Bool (ClangCoverage c1)")
    case True
    then show ?thesis using half by (simp add: deriveAndExport_both)
  next
    case False
    from deriveAndExport_not_both [OF False d] half d False show ?thesis by simp
  qed
qed

theorem coverage_options_exclusive_witness:
  "fst (loadFromConfigFile exampleLib (zeroVariables ()) ''/out/soong/soong.variables''
          (exampleWorld\<lparr>files := [''/out/soong/soong.variables'' \<mapsto> coverageDocument True True]\<rparr>))
     = Some CoverageBothSet
   \<and> Native_coverage (fst (snd (loadFromConfigFile exampleLib (zeroVariables ())
          ''/out/soong/soong.variables''
          (exampleWorld\<lparr>files := [''/out/soong/soong.variables'' \<mapsto> coverageDocument True False]\<rparr>))))
     = Some True"
proof -
  let ?f = "''/out/soong/soong.variables''"
  let ?w = "\<lambda>d. exampleWorld\<lparr>files := [?f \<mapsto> d]\<rparr>"
  let ?v = "zeroVariables ()"
  have both: "(os_Open ?f (?w (coverageDocument True True))
                 = (Opened (coverageDocument True True), logCall (OsOpen ?f) (?w (coverageDocument True True)))
               \<and> json_Decode exampleLib (coverageDocument True True) ?v
                 = (None, ?v\<lparr>GcovCoverage := Some True, ClangCoverage := Some True\<rparr>))
            \<or> (os_Open ?f (?w (coverageDocument True True)) = (NotExist, exampleWorld)
               \<and> ?v\<lparr>GcovCoverage := Some True, ClangCoverage := Some True\<rparr>
                   = SetDefaultConfig exampleLib ?v
               \<and> saveToConfigFile exampleLib (?v\<lparr>GcovCoverage := Some True, ClangCoverage := Some True\<rparr>)
                     ?f exampleWorld
                   = (None, logCall (OsOpen ?f) (?w (coverageDocument True True))))"
    by (simp add: io_defs example_defs)
  have one: "(os_Open ?f (?w (coverageDocument True False))
                 = (Opened (coverageDocument True False), logCall (OsOpen ?f) (?w (coverageDocument True False)))
               \<and> json_Decode exampleLib (coverageDocument True False) ?v
                 = (None, ?v\<lparr>GcovCoverage := Some True, ClangCoverage := Some False\<rparr>))
            \<or> (os_Open ?f (?w (coverageDocument True False)) = (NotExist, exampleWorld)
               \<and> ?v\<lparr>GcovCoverage := Some True, ClangCoverage := Some False\<rparr>
                   = SetDefaultConfig exampleLib ?v
               \<and> saveToConfigFile exampleLib (?v\<lparr>GcovCoverage := Some True, ClangCoverage := Some False\<rparr>)
                     ?f exampleWorld
                   = (None, logCall (OsOpen ?f) (?w (coverageDocument True False))))"
    by (simp add: io_defs example_defs)
  from coverage_options_exclusive [OF both] coverage_options_exclusive [OF one]
  show ?thesis by (simp add: Bool_def)
qed

subsection \<open>File system failures\<close>

lemma open_failure_surfaced:
  "fault w (OsOpen filename) = Some e \<Longrightarrow>
   fst (loadFromConfigFile lib v filename w) = Some (ConfigOpenError filename e)"
  by (simp add: loadFromConfigFile_def os_Open_def Let_def)

lemma createTemp_failure_surfaced:
  "json_MarshalIndent lib vars = Inr d \<Longrightarrow>
   fault w (OsCreateTemp (filepath_Dir lib filename) ''config'') = Some e \<Longrightarrow>
   fst (saveToConfigFile lib vars filename w) = Some (CreateTempError filename e)"
  by (simp add: saveToConfigFile_def os_CreateTemp_def Let_def)

lemma createDir_failure_surfaced:
  "fault w (CreateDir (filepath_Join lib [dir0, SoongInjectionDirName lib, ''product_config''])) = Some e \<Longrightarrow>
   fst (saveToBazelConfigFile lib vars dir0 w)
     = Some (CreateDirError (filepath_Join lib [dir0, SoongInjectionDirName lib, ''product_config'']) e)"
  by (simp add: saveToBazelConfigFile_def createDirIfNonexistent_def Let_def)

text \<open>
  C8. In a world where everything succeeds except the \<^verbatim>\<open>os.Rename\<close> of the temporary
  file over the target, \<^verbatim>\<open>saveToConfigFile\<close> returns no error, and so does
  \<^verbatim>\<open>loadFromConfigFile\<close>; the target file does not exist afterwards, and the
  temporary file has been removed.
\<close>

theorem rename_failure_not_surfaced:
  "fst (saveToConfigFile exampleLib (zeroVariables ()) ''/out/soong/soong.variables''
          (exampleWorld\<lparr>fault := (\<lambda>call.
             if call = OsRename ''/out/soong/config123'' ''/out/soong/soong.variables''
             then Some ''input/output error'' else None)\<rparr>)) = None
   \<and> files (snd (saveToConfigFile exampleLib (zeroVariables ()) ''/out/soong/soong.variables''
          (exampleWorld\<lparr>fault := (\<lambda>call.
             if call = OsRename ''/out/soong/config123'' ''/out/soong/soong.variables''
             then Some ''input/output error'' else None)\<rparr>))) = Map.empty
   \<and> fst (loadFromConfigFile exampleLib (zeroVariables ()) ''/out/soong/soong.variables''
          (exampleWorld\<lparr>fault := (\<lambda>call.
             if call = OsRename ''/out/soong/config123'' ''/out/soong/soong.variables''
             then Some ''input/output error'' else None)\<rparr>)) = None
   \<and> files (snd (snd (loadFromConfigFile exampleLib (zeroVariables ()) ''/out/soong/soong.variables''
          (exampleWorld\<lparr>fault := (\<lambda>call.
             if call = OsRename ''/out/soong/config123'' ''/out/soong/soong.variables''
             then Some ''input/output error'' else None)\<rparr>)))) ''/out/soong/soong.variables'' = None"
  by (simp add: load_defs io_defs example_defs)

subsection \<open>Loading a file that does not exist\<close>

lemma saveToConfigFile_written:
  assumes "saveToConfigFile lib vars filename w = (None, w1)"
      and "fault w (OsRename (tempName w (filepath_Dir lib filename) ''config'') filename) = None"
      and "tempName w (filepath_Dir lib filename) ''config'' \<noteq> filename"
  shows "\<exists>d. json_MarshalIndent lib vars = Inr d \<and> files w1 filename = Some (d @ newline)"
  using assms
  by (auto simp: saveToConfigFile_def io_defs Let_def
           split: sum.splits prod.splits option.splits if_splits)

lemma saveToConfigFile_fault:
  "fault (snd (saveToConfigFile lib vars filename w)) = fault w"
  by (auto simp: saveToConfigFile_def io_defs Let_def
           split: sum.splits prod.splits option.splits if_splits)

lemma saveToBazelConfigFile_fault:
  "fault (snd (saveToBazelConfigFile lib vars dir0 w)) = fault w"
  by (auto simp: saveToBazelConfigFile_def io_defs Let_def
           split: sum.splits prod.splits option.splits if_splits)

lemma saveToBazelConfigFile_files:
  "filename \<notin> set (bazelConfigFiles lib dir0) \<Longrightarrow>
   files (snd (saveToBazelConfigFile lib vars dir0 w)) filename = files w filename"
  by (auto simp: saveToBazelConfigFile_def bazelConfigFiles_def io_defs Let_def
           split: sum.splits prod.splits option.splits if_splits)

lemma saveToBazelConfigFile_error:
  "fault w2 = fault w \<Longrightarrow>
   fst (saveToBazelConfigFile lib vars dir0 w2) = fst (saveToBazelConfigFile lib vars dir0 w)"
  by (auto simp: saveToBazelConfigFile_def io_defs Let_def
           split: sum.splits prod.splits option.splits if_splits)

lemma deriveAndExport_store:
  "deriveAndExport lib c filename w = (None, c', w') \<Longrightarrow> c' = withDerivedFields c"
  by (auto simp: deriveAndExport_def withDerivedFields_def Let_def
           split: if_splits option.splits prod.splits)

lemma deriveAndExport_fault:
  "fault (snd (snd (deriveAndExport lib c filename w))) = fault w"
  by (simp add: deriveAndExport_def Let_def split_beta saveToBazelConfigFile_fault
           split: option.splits)

lemma deriveAndExport_files:
  "filename \<notin> set (bazelConfigFiles lib (filepath_Dir lib filename)) \<Longrightarrow>
   files (snd (snd (deriveAndExport lib c filename w))) filename = files w filename"
  by (simp add: deriveAndExport_def Let_def split_beta saveToBazelConfigFile_files
           split: option.splits)

lemma deriveAndExport_again:
  assumes "fault w2 = fault w"
  shows "fst (deriveAndExport lib c filename w2) = fst (deriveAndExport lib c filename w)
       \<and> fst (snd (deriveAndExport lib c filename w2)) = fst (snd (deriveAndExport lib c filename w))"
  by (simp add: deriveAndExport_def Let_def split_beta saveToBazelConfigFile_error [OF assms]
           split: option.splits)

lemma load_absent_steps:
  assumes absent: "files w filename = None" "fault w (OsOpen filename) = None"
      and ok: "loadFromConfigFile lib v filename w = (None, store, w')"
  shows "\<exists>w1. saveToConfigFile lib (SetDefaultConfig lib v) filename (logCall (OsOpen filename) w)
               = (None, w1)
            \<and> deriveAndExport lib (SetDefaultConfig lib v) filename w1 = (None, store, w')"
  using assms
  by (auto simp: loadFromConfigFile_def os_Open_def Let_def split: prod.splits option.splits)

lemma load_present_steps:
  assumes present: "files w filename = Some d" "fault w (OsOpen filename) = None"
      and decoded: "json_Decode lib d v = (None, c1)"
  shows "fst (loadFromConfigFile lib v filename w)
           = fst (deriveAndExport lib c1 filename (logCall (OsOpen filename) w))
       \<and> fst (snd (loadFromConfigFile lib v filename w))
           = fst (snd (deriveAndExport lib c1 filename (logCall (OsOpen filename) w)))"
  using assms
  by (auto simp: loadFromConfigFile_def os_Open_def Let_def split: prod.splits option.splits)

text \<open>
  C5, amended. When \<^verbatim>\<open>loadFromConfigFile\<close> is called with a path at which no file
  exists and returns no error, and the rename of the temporary file succeeded, the
  file at that path holds the JSON text of the defaults of \<^verbatim>\<open>SetDefaultConfig\<close>
  followed by a newline, written before the derived fields were computed, and the
  store that the load produced is the defaults with the two derived fields computed.
  So if decoding the written text gives back the defaults, the store produced is the
  decoded store with the two derived fields computed, and loading the written file
  (decoding it and computing the derived fields) produces the same store, again
  without an error.
\<close>

theorem load_absent_round_trip:
  assumes absent: "files w filename = None" "fault w (OsOpen filename) = None"
      and ok: "loadFromConfigFile lib v filename w = (None, store, w')"
      and renamed: "fault w (OsRename (tempName w (filepath_Dir lib filename) ''config'') filename) = None"
      and fresh: "tempName w (filepath_Dir lib filename) ''config'' \<noteq> filename"
      and apart: "filename \<notin> set (bazelConfigFiles lib (filepath_Dir lib filename))"
  shows "\<exists>d. json_MarshalIndent lib (SetDefaultConfig lib v) = Inr d
           \<and> files w' filename = Some (d @ newline)
           \<and> store = withDerivedFields (SetDefaultConfig lib v)
           \<and> (\<forall>decoded. json_Decode lib (d @ newline) v = (None, decoded)
                  \<and> decoded = SetDefaultConfig lib v \<longrightarrow>
                  store = withDerivedFields decoded
                  \<and> fst (loadFromConfigFile lib v filename w') = None
                  \<and> fst (snd (loadFromConfigFile lib v filename w')) = store)"
proof -
  let ?defaults = "SetDefaultConfig lib v"
  let ?w0 = "logCall (OsOpen filename) w"
  from load_absent_steps [OF absent ok] obtain w1 where
      saved: "saveToConfigFile lib ?defaults filename ?w0 = (None, w1)"
      and derived: "deriveAndExport lib ?defaults filename w1 = (None, store, w')"
    by blast
  have "fault ?w0 = fault w" "tempName ?w0 = tempName w"
    by (simp_all add: logCall_def)
  with saveToConfigFile_written [OF saved] renamed fresh obtain d where
      d: "json_MarshalIndent lib ?defaults = Inr d"
      and written: "files w1 filename = Some (d @ newline)"
    by auto
  from saveToConfigFile_fault [of lib ?defaults filename ?w0] saved
  have f1: "fault w1 = fault w" by (simp add: logCall_def)
  from deriveAndExport_fault [of lib ?defaults filename w1] derived f1
  have f': "fault w' = fault w" by simp
  from deriveAndExport_files [OF apart, of ?defaults w1] derived written
  have inplace: "files w' filename = Some (d @ newline)" by simp
  from deriveAndExport_store [OF derived] have store: "store = withDerivedFields ?defaults" .
  have "fault (logCall (OsOpen filename) w') = fault w1"
    using f' f1 by (simp add: logCall_def)
  from deriveAndExport_again [OF this, of lib ?defaults filename] derived
  have again: "fst (deriveAndExport lib ?defaults filename (logCall (OsOpen filename) w')) = None"
      "fst (snd (deriveAndExport lib ?defaults filename (logCall (OsOpen filename) w'))) = store"
    by simp_all
  from f' absent(2) have opens: "fault w' (OsOpen filename) = None" by simp
  have reload: "store = withDerivedFields decoded
        \<and> fst (loadFromConfigFile lib v filename w') = None
        \<and> fst (snd (loadFromConfigFile lib v filename w')) = store"
    if "json_Decode lib (d @ newline) v = (None, decoded) \<and> decoded = ?defaults" for decoded
  proof -
    from that have dec: "json_Decode lib (d @ newline) v = (None, ?defaults)"
      and same: "decoded = ?defaults"
      by simp_all
    from load_present_steps [OF inplace opens dec] again store same show ?thesis
      by simp
  qed
  show ?thesis
  proof (intro exI conjI allI impI)
    show "json_MarshalIndent lib ?defaults = Inr d" by (rule d)
    show "files w' filename = Some (d @ newline)" by (rule inplace)
    show "store = withDerivedFields ?defaults" by (rule store)
  next
    fix decoded
    assume a: "json_Decode lib (d @ newline) v = (None, decoded) \<and> decoded = ?defaults"
    from reload [OF a] show "store = withDerivedFields decoded" by simp
    from reload [OF a] show "fst (loadFromConfigFile lib v filename w') = None" by simp
    from reload [OF a] show "fst (snd (loadFromConfigFile lib v filename w')) = store" by simp
  qed
qed

lemmas codec_defs =
  defaultsLib_def exampleDefaults_def storeMarshal_def storeMembers_def optionMember_def
  storeDecode_def decodeInto_def orElse_def exampleStores_def withDerivedFields_def Itoa_def

theorem load_absent_round_trip_witness:
  "files (snd (snd (loadFromConfigFile defaultsLib (zeroVariables ())
       ''/out/soong/soong.variables'' exampleWorld))) ''/out/soong/soong.variables''
     = Some (projr (storeMarshal exampleDefaults) @ newline)
   \<and> fst (snd (loadFromConfigFile defaultsLib (zeroVariables ()) ''/out/soong/soong.variables''
        exampleWorld))
     = withDerivedFields exampleDefaults
   \<and> fst (snd (loadFromConfigFile defaultsLib (zeroVariables ()) ''/out/soong/soong.variables''
       (snd (snd (loadFromConfigFile defaultsLib (zeroVariables ()) ''/out/soong/soong.variables''
          exampleWorld)))))
     = withDerivedFields exampleDefaults"
proof -
  let ?f = "''/out/soong/soong.variables''"
  let ?v = "zeroVariables () :: unit productVariables"
  have absent: "files exampleWorld ?f = None" "fault exampleWorld (OsOpen ?f) = None"
    by (simp_all add: exampleWorld_def)
  have "fst (loadFromConfigFile defaultsLib ?v ?f exampleWorld) = None"
    by (simp add: load_defs io_defs codec_defs example_defs)
  then obtain store w' where ok: "loadFromConfigFile defaultsLib ?v ?f exampleWorld = (None, store, w')"
    by (cases "loadFromConfigFile defaultsLib ?v ?f exampleWorld") auto
  have renamed: "fault exampleWorld
      (OsRename (tempName exampleWorld (filepath_Dir defaultsLib ?f) ''config'') ?f) = None"
    by (simp add: exampleWorld_def)
  have fresh: "tempName exampleWorld (filepath_Dir defaultsLib ?f) ''config'' \<noteq> ?f"
    by (simp add: defaultsLib_def example_defs)
  have apart: "?f \<notin> set (bazelConfigFiles defaultsLib (filepath_Dir defaultsLib ?f))"
    by (simp add: bazelConfigFiles_def defaultsLib_def example_defs)
  have defaults: "SetDefaultConfig defaultsLib ?v = exampleDefaults"
    by (simp add: defaultsLib_def exampleLib_def)
  have marshal: "json_MarshalIndent defaultsLib exampleDefaults = storeMarshal exampleDefaults"
    by (simp add: defaultsLib_def exampleLib_def)
  have rendered: "storeMarshal exampleDefaults = Inr (projr (storeMarshal exampleDefaults))"
    by (simp add: codec_defs example_defs)
  have codec: "json_Decode defaultsLib (projr (storeMarshal exampleDefaults) @ newline) ?v
      = (None, exampleDefaults) \<and> exampleDefaults = SetDefaultConfig defaultsLib ?v"
    by (simp add: codec_defs example_defs exampleLib_def)
  from load_absent_round_trip [OF absent ok renamed fresh apart] obtain d where
      d: "json_MarshalIndent defaultsLib (SetDefaultConfig defaultsLib ?v) = Inr d"
      and written: "files w' ?f = Some (d @ newline)"
      and store: "store = withDerivedFields (SetDefaultConfig defaultsLib ?v)"
      and reload: "\<forall>decoded. json_Decode defaultsLib (d @ newline) ?v = (None, decoded)
                  \<and> decoded = SetDefaultConfig defaultsLib ?v \<longrightarrow>
                  store = withDerivedFields decoded
                  \<and> fst (loadFromConfigFile defaultsLib ?v ?f w') = None
                  \<and> fst (snd (loadFromConfigFile defaultsLib ?v ?f w')) = store"
    by blast
  from d defaults marshal rendered have "d = projr (storeMarshal exampleDefaults)"
    by simp
  with reload codec have "fst (snd (loadFromConfigFile defaultsLib ?v ?f w')) = store"
    by blast
  with ok written store defaults \<open>d = projr (storeMarshal exampleDefaults)\<close>
  show ?thesis by simp
qed

text \<open>
  C5 as stated fails. With defaults that set no derived field, the load of a missing
  file writes the text of the defaults, and the store decoded from that text has no
  \<^verbatim>\<open>Native_coverage\<close>, while the store that the load produced has it set to false.
\<close>

theorem load_absent_round_trip_counterexample:
  "fst (loadFromConfigFile exampleLib (zeroVariables ()) ''/out/soong/soong.variables''
          exampleWorld) = None
   \<and> files (snd (snd (loadFromConfigFile exampleLib (zeroVariables ())
          ''/out/soong/soong.variables'' exampleWorld))) ''/out/soong/soong.variables''
       = Some (''{}'' @ newline)
   \<and> Native_coverage (snd (json_Decode exampleLib (''{}'' @ newline) (zeroVariables ()))) = None
   \<and> Native_coverage (fst (snd (loadFromConfigFile exampleLib (zeroVariables ())
          ''/out/soong/soong.variables'' exampleWorld))) = Some False
   \<and> fst (snd (loadFromConfigFile exampleLib (zeroVariables ())
          ''/out/soong/soong.variables'' exampleWorld))
       \<noteq> snd (json_Decode exampleLib (''{}'' @ newline) (zeroVariables ()))"
  by (simp add: load_defs io_defs example_defs)

subsection \<open>Multilib conflicts\<close>





lemma multilibLoop_entries:
  "multilibLoop ts m cs a = Some b \<Longrightarrow> b \<or> cs a = Some b"
proof (induction ts arbitrary: m cs)
  case Nil
  then show ?case by simp
next
  case (Cons x xs)
  let ?cs = "if lookupBool m (Multilib (ArchType (Arch x)))
             then cs(ArchType (Arch x) \<mapsto> True) else cs"
  from Cons.prems have "multilibLoop xs (m(Multilib (ArchType (Arch x)) \<mapsto> True)) ?cs a = Some b"
    by simp
  from Cons.IH [OF this] show ?case
    by (auto split: if_splits)
qed








subsection \<open>The build directory and the source directory\<close>

lemma HasPrefix_append:
  "HasPrefix (p @ rest) p"
  by (induction p) simp_all

lemma HasPrefix_slash:
  "HasPrefix (renderPath cs) ''/''"
  by (cases cs) (simp_all add: renderPath_def)

lemma HasPrefix_ancestor:
  assumes "isAncestor bs ss"
  shows "HasPrefix (renderPath ss) (renderPath bs)"
proof (cases bs)
  case Nil
  then show ?thesis using HasPrefix_slash [of ss] by (simp add: renderPath_def)
next
  case (Cons b bs')
  from assms have "ss = bs @ drop (length bs) ss"
    by (metis append_take_drop_id isAncestor_def)
  then obtain rest where ss: "ss = bs @ rest" ..
  with Cons have "renderPath ss = renderPath bs @ concat (map (\<lambda>c. CHR ''/'' # c) rest)"
    by (simp add: renderPath_def)
  then show ?thesis by (simp add: HasPrefix_append)
qed

lemma string_prefix_without_ancestry:
  "HasPrefix (renderPath [''a'', ''bc'']) (renderPath [''a'', ''b''])
   \<and> \<not> isAncestor [''a'', ''b''] [''a'', ''bc'']"
  by (simp add: renderPath_def isAncestor_def)

text \<open>
  The check in the direction it is meant: when the absolute build output directory is
  an ancestor of the absolute source root, or the same directory, \<^verbatim>\<open>NewConfig\<close>
  returns the error that the build directory must not contain the source directory,
  and it does so before any file is looked at: the world, with its record of the calls
  made, is as it was.
\<close>

lemma build_dir_above_source_rejected:
  assumes "filepath_Abs lib (SoongOutDir cmdArgs) = Inr (renderPath bs)"
      and "filepath_Abs lib ''.'' = Inr (renderPath ss)"
      and "isAncestor bs ss"
  shows "NewConfig lib cmdArgs availableEnv w = (Inr (None, Some BuildDirContainsSource), w)"
  using assms by (simp add: NewConfig_def HasPrefix_ancestor)

lemma build_dir_above_source_rejected_example:
  "NewConfig (exampleLib\<lparr>filepath_Abs := (\<lambda>p. if p = ''.'' then Inr ''/src/android'' else Inr p)\<rparr>)
        (exampleArgs\<lparr>SoongOutDir := ''/src''\<rparr>) Map.empty exampleWorld
     = (Inr (None, Some BuildDirContainsSource), exampleWorld)"
proof -
  let ?lib = "exampleLib\<lparr>filepath_Abs := (\<lambda>p. if p = ''.'' then Inr ''/src/android'' else Inr p)\<rparr>"
  let ?args = "exampleArgs\<lparr>SoongOutDir := ''/src''\<rparr>"
  have b: "filepath_Abs ?lib (SoongOutDir ?args) = Inr (renderPath [''src''])"
    by (simp add: exampleLib_def exampleArgs_def renderPath_def)
  have s: "filepath_Abs ?lib ''.'' = Inr (renderPath [''src'', ''android''])"
    by (simp add: exampleLib_def renderPath_def)
  have above: "isAncestor [''src''] [''src'', ''android'']"
    by (simp add: isAncestor_def)
  from build_dir_above_source_rejected [OF b s above, of Map.empty exampleWorld]
  show ?thesis by simp
qed

text \<open>
  C7. The build output directory \<^verbatim>\<open>/a/b\<close> is not an ancestor of the source root
  \<^verbatim>\<open>/a/bc\<close>: the two are siblings. \<^verbatim>\<open>NewConfig\<close> compares the two absolute
  paths with \<^verbatim>\<open>strings.HasPrefix\<close>, finds the one text at the head of the other, and
  returns the error that the build directory must not contain the source directory,
  before any file is looked at.
\<close>

theorem build_dir_check_rejects_sibling:
  "filepath_Abs (exampleLib\<lparr>filepath_Abs := (\<lambda>p. if p = ''.'' then Inr ''/a/bc'' else Inr p)\<rparr>)
       (SoongOutDir (exampleArgs\<lparr>SoongOutDir := ''/a/b''\<rparr>))
     = Inr (renderPath [''a'', ''b''])
   \<and> filepath_Abs (exampleLib\<lparr>filepath_Abs := (\<lambda>p. if p = ''.'' then Inr ''/a/bc'' else Inr p)\<rparr>) ''.''
     = Inr (renderPath [''a'', ''bc''])
   \<and> \<not> isAncestor [''a'', ''b''] [''a'', ''bc'']
   \<and> NewConfig (exampleLib\<lparr>filepath_Abs := (\<lambda>p. if p = ''.'' then Inr ''/a/bc'' else Inr p)\<rparr>)
        (exampleArgs\<lparr>SoongOutDir := ''/a/b''\<rparr>) Map.empty exampleWorld
     = (Inr (None, Some BuildDirContainsSource), exampleWorld)"
  by (simp add: NewConfig_def exampleLib_def exampleArgs_def renderPath_def isAncestor_def)

subsection \<open>Mixed builds\<close>

lemma Getenv_fields:
  fixes c :: "'r config"
  assumes "Getenv c key = Inr (v, c')"
  shows "once c' = once c \<and> productVariables c' = productVariables c
       \<and> BuildMode c' = BuildMode c"
  using assms
  by (auto simp: Getenv_def Let_def split: option.splits if_splits)

lemma Getenv_envValue:
  assumes "Getenv c key = Inr (v, c')"
  shows "envValue c' k = envValue c k \<and> v = envValue c key"
  using assms
  by (auto simp: Getenv_def envValue_def ledgerOf_def lookupEnv_def Let_def
           split: option.splits if_splits)

lemma envValue_cached:
  "ledgerOf (envDeps c) k \<noteq> None \<Longrightarrow> envValue (c\<lparr>env := e\<rparr>) k = envValue c k"
  by (auto simp: envValue_def)

lemma onceAgrees_Getenv:
  fixes c :: "'r config"
  assumes "onceAgrees c" and g: "Getenv c key = Inr (v, c')"
  shows "onceAgrees c'"
proof -
  from Getenv_fields [OF g] Getenv_envValue [OF g]
  have same: "once c' = once c" "productVariables c' = productVariables c"
      "mixedBuildsSupported c' = mixedBuildsSupported c"
    by (simp_all add: mixedBuildsSupported_def)
  from Getenv_Inr [OF g]
  have "ledgerOf (envDeps c) ''GLOBAL_THINLTO'' \<noteq> None
          \<Longrightarrow> ledgerOf (envDeps c') ''GLOBAL_THINLTO'' \<noteq> None"
    by auto
  with assms(1) same show ?thesis
    by (auto simp: onceAgrees_def split: option.splits)
qed

lemma onceAgrees_EnvDeps:
  "onceAgrees c \<Longrightarrow> onceAgrees (snd (EnvDeps c))"
  by (auto simp: onceAgrees_def EnvDeps_def mixedBuildsSupported_def envValue_def
           split: option.splits)

lemma onceAgrees_EnvChanges:
  "onceAgrees c \<Longrightarrow> onceAgrees (c\<lparr>env := e\<rparr>)"
  by (auto simp: onceAgrees_def mixedBuildsSupported_def envValue_cached
           split: option.splits)

lemma Getenv_Inl:
  "Getenv c key = Inl e \<Longrightarrow>
   e = EnvFrozenPanic \<and> envFrozen c \<and> ledgerOf (envDeps c) key = None"
  by (auto simp: Getenv_def ledgerOf_def Let_def split: option.splits if_splits)

lemma globalMixedBuildsSupport_riscv64:
  "DeviceArch (productVariables c) = Some ''riscv64'' \<Longrightarrow>
   globalMixedBuildsSupport c = Inr (OnceBool False, c)"
  by (simp add: globalMixedBuildsSupport_def)

lemma globalMixedBuildsSupport_other:
  fixes c :: "'r config"
  assumes "DeviceArch (productVariables c) \<noteq> Some ''riscv64''"
  shows "globalMixedBuildsSupport c =
     (case Getenv c ''GLOBAL_THINLTO'' of
        Inl e \<Rightarrow> Inl e
      | Inr (v, c') \<Rightarrow> Inr (OnceBool (mixedBuildsSupported c), c'))"
proof (cases "Getenv c ''GLOBAL_THINLTO''")
  case (Inl e)
  with assms show ?thesis
    by (auto simp: globalMixedBuildsSupport_def IsEnvTrue_def)
next
  case (Inr r)
  obtain v c' where r: "r = (v, c')" by (cases r)
  from Inr r have g: "Getenv c ''GLOBAL_THINLTO'' = Inr (v, c')" by simp
  from Getenv_fields [OF g] Getenv_envValue [OF g, of "''GLOBAL_THINLTO''"]
  have "productVariables c' = productVariables c" "v = envValue c ''GLOBAL_THINLTO''"
    by simp_all
  with assms g show ?thesis
    by (auto simp: globalMixedBuildsSupport_def IsEnvTrue_def mixedBuildsSupported_def)
qed

lemma IsMixedBuildsEnabled_cached:
  fixes c :: "'r config"
  assumes "onceAgrees c" and "once c ''globalMixedBuildsSupport'' \<noteq> None"
  shows "IsMixedBuildsEnabled c =
     Inr (mixedBuildsSupported c
          \<and> (BuildMode c = BazelProdMode \<or> BuildMode c = BazelDevMode
               \<or> BuildMode c = BazelStagingMode), c)"
  using assms
  by (auto simp: IsMixedBuildsEnabled_def Once_def onceAgrees_def Let_def split: option.splits)

lemma IsMixedBuildsEnabled_riscv64:
  fixes c :: "'r config"
  assumes "once c ''globalMixedBuildsSupport'' = None"
      and "DeviceArch (productVariables c) = Some ''riscv64''"
  shows "IsMixedBuildsEnabled c =
     Inr (False, c\<lparr>once := (once c)(''globalMixedBuildsSupport'' \<mapsto> OnceBool False)\<rparr>)"
  using assms
  by (simp add: IsMixedBuildsEnabled_def Once_def globalMixedBuildsSupport_riscv64)

lemma IsMixedBuildsEnabled_computed:
  fixes c :: "'r config"
  assumes "once c ''globalMixedBuildsSupport'' = None"
      and "DeviceArch (productVariables c) \<noteq> Some ''riscv64''"
  shows "IsMixedBuildsEnabled c =
     (case Getenv c ''GLOBAL_THINLTO'' of
        Inl e \<Rightarrow> Inl e
      | Inr (v, c') \<Rightarrow>
          Inr (mixedBuildsSupported c
               \<and> (BuildMode c = BazelProdMode \<or> BuildMode c = BazelDevMode
                    \<or> BuildMode c = BazelStagingMode),
               c'\<lparr>once := (once c')(''globalMixedBuildsSupport'' \<mapsto>
                             OnceBool (mixedBuildsSupported c))\<rparr>))"
proof (cases "Getenv c ''GLOBAL_THINLTO''")
  case (Inl e)
  with assms show ?thesis
    by (simp add: IsMixedBuildsEnabled_def Once_def globalMixedBuildsSupport_other)
next
  case (Inr r)
  obtain v c' where r: "r = (v, c')" by (cases r)
  from Inr r have g: "Getenv c ''GLOBAL_THINLTO'' = Inr (v, c')" by simp
  from Getenv_fields [OF g] have "BuildMode c' = BuildMode c" by simp
  with assms g show ?thesis
    by (simp add: IsMixedBuildsEnabled_def Once_def globalMixedBuildsSupport_other Let_def)
qed

lemma envValue_once:
  "envValue (c\<lparr>once := x\<rparr>) k = envValue c k"
  by (simp add: envValue_def split: option.splits)

lemma mixedBuildsSupported_once:
  "mixedBuildsSupported (c\<lparr>once := x\<rparr>) = mixedBuildsSupported c"
  by (simp add: mixedBuildsSupported_def envValue_once)

lemma onceAgrees_IsMixedBuildsEnabled:
  fixes c :: "'r config"
  assumes agrees: "onceAgrees c" and call: "IsMixedBuildsEnabled c = Inr (b, c')"
  shows "onceAgrees c'"
proof (cases "once c ''globalMixedBuildsSupport''")
  case (Some v)
  with agrees call show ?thesis
    by (simp add: IsMixedBuildsEnabled_cached)
next
  case None
  show ?thesis
  proof (cases "DeviceArch (productVariables c) = Some ''riscv64''")
    case True
    with None call show ?thesis
      by (auto simp: IsMixedBuildsEnabled_riscv64 onceAgrees_def mixedBuildsSupported_def)
  next
    case False
    from call None False obtain v c1 where
        g: "Getenv c ''GLOBAL_THINLTO'' = Inr (v, c1)"
        and c': "c' = c1\<lparr>once := (once c1)(''globalMixedBuildsSupport'' \<mapsto>
                               OnceBool (mixedBuildsSupported c))\<rparr>"
      by (auto simp: IsMixedBuildsEnabled_computed split: sum.splits)
    from Getenv_fields [OF g] Getenv_envValue [OF g, of "''GLOBAL_THINLTO''"]
    have same: "mixedBuildsSupported c1 = mixedBuildsSupported c"
      by (simp add: mixedBuildsSupported_def)
    have "mixedBuildsSupported c' = mixedBuildsSupported c1"
      unfolding c' by (rule mixedBuildsSupported_once)
    with same have supported: "mixedBuildsSupported c' = mixedBuildsSupported c"
      by simp
    from Getenv_Inr [OF g] have "ledgerOf (envDeps c1) ''GLOBAL_THINLTO'' \<noteq> None"
      by simp
    then have read: "ledgerOf (envDeps c') ''GLOBAL_THINLTO'' \<noteq> None"
      unfolding c' by simp
    have "once c' ''globalMixedBuildsSupport'' = Some (OnceBool (mixedBuildsSupported c))"
      unfolding c' by simp
    with supported read show ?thesis
      by (simp add: onceAgrees_def)
  qed
qed

lemma reachable_onceAgrees:
  "reachable c \<Longrightarrow> onceAgrees c"
proof (induction rule: reachable.induct)
  case (fresh c)
  then show ?case by (simp add: onceAgrees_def)
next
  case (afterGetenv c key v c')
  then show ?case by (auto intro: onceAgrees_Getenv)
next
  case (afterEnvDeps c)
  from afterEnvDeps.IH show ?case by (rule onceAgrees_EnvDeps)
next
  case (afterEnvChanges c e)
  from afterEnvChanges.IH show ?case by (rule onceAgrees_EnvChanges)
next
  case (afterIsMixedBuildsEnabled c b c')
  then show ?case by (auto intro: onceAgrees_IsMixedBuildsEnabled)
qed

lemma IsMixedBuildsEnabled_outcome:
  fixes c :: "'r config"
  assumes "onceAgrees c"
  shows "(\<exists>c'. IsMixedBuildsEnabled c =
            Inr (mixedBuildsSupported c
                 \<and> (BuildMode c = BazelProdMode \<or> BuildMode c = BazelDevMode
                      \<or> BuildMode c = BazelStagingMode), c'))
       \<or> (IsMixedBuildsEnabled c = Inl EnvFrozenPanic
            \<and> envFrozen c
            \<and> ledgerOf (envDeps c) ''GLOBAL_THINLTO'' = None
            \<and> once c ''globalMixedBuildsSupport'' = None
            \<and> DeviceArch (productVariables c) \<noteq> Some ''riscv64'')"
proof (cases "once c ''globalMixedBuildsSupport''")
  case (Some v)
  with assms show ?thesis
    by (simp add: IsMixedBuildsEnabled_cached)
next
  case None
  show ?thesis
  proof (cases "DeviceArch (productVariables c) = Some ''riscv64''")
    case True
    with None show ?thesis
      by (simp add: IsMixedBuildsEnabled_riscv64 mixedBuildsSupported_def)
  next
    case False
    show ?thesis
    proof (cases "Getenv c ''GLOBAL_THINLTO''")
      case (Inl e)
      from Getenv_Inl [OF Inl] Inl None False show ?thesis
        by (simp add: IsMixedBuildsEnabled_computed)
    next
      case (Inr r)
      with None False show ?thesis
        by (cases r) (simp add: IsMixedBuildsEnabled_computed)
    qed
  qed
qed

text \<open>
  C10. Take a configuration that the functions of this file lead to, and on which the
  call does not hit the panic of \<^verbatim>\<open>Getenv\<close>: the ledger is not frozen, or
  \<^verbatim>\<open>GLOBAL_THINLTO\<close> has been read, or the decision is stored, or the device is
  riscv64. Then \<^verbatim>\<open>IsMixedBuildsEnabled\<close> returns, and it returns true only if the build
  mode is \<open>BazelDevMode\<close>, \<open>BazelStagingMode\<close> or \<open>BazelProdMode\<close> (never in
  \<open>AnalysisNoBazel\<close>); it returns false whenever \<^verbatim>\<open>DeviceArch\<close> is "riscv64", the
  value of \<^verbatim>\<open>GLOBAL_THINLTO\<close> is one of the true strings, or one of
  \<^verbatim>\<open>SanitizeHost\<close>, \<^verbatim>\<open>SanitizeDevice\<close>, \<^verbatim>\<open>SanitizeDeviceDiag\<close> and
  \<^verbatim>\<open>SanitizeDeviceArch\<close> is not empty.
\<close>

theorem IsMixedBuildsEnabled_conditions:
  fixes c :: "'r config"
  assumes "reachable c"
      and "\<not> envFrozen c \<or> ledgerOf (envDeps c) ''GLOBAL_THINLTO'' \<noteq> None
           \<or> once c ''globalMixedBuildsSupport'' \<noteq> None
           \<or> DeviceArch (productVariables c) = Some ''riscv64''"
  shows "\<exists>b c'. IsMixedBuildsEnabled c = Inr (b, c')
           \<and> (b \<longrightarrow> BuildMode c = BazelDevMode \<or> BuildMode c = BazelStagingMode
                     \<or> BuildMode c = BazelProdMode)
           \<and> (BuildMode c = AnalysisNoBazel \<longrightarrow> \<not> b)
           \<and> (DeviceArch (productVariables c) = Some ''riscv64'' \<longrightarrow> \<not> b)
           \<and> (truthy (envValue c ''GLOBAL_THINLTO'') \<longrightarrow> \<not> b)
           \<and> (SanitizeHost (productVariables c) \<noteq> []
                \<or> SanitizeDevice (productVariables c) \<noteq> []
                \<or> SanitizeDeviceDiag (productVariables c) \<noteq> []
                \<or> SanitizeDeviceArch (productVariables c) \<noteq> [] \<longrightarrow> \<not> b)"
proof -
  from assms(1) have "onceAgrees c" by (rule reachable_onceAgrees)
  from IsMixedBuildsEnabled_outcome [OF this] assms(2) obtain c' where
    "IsMixedBuildsEnabled c =
       Inr (mixedBuildsSupported c
            \<and> (BuildMode c = BazelProdMode \<or> BuildMode c = BazelDevMode
                 \<or> BuildMode c = BazelStagingMode), c')"
    by blast
  then show ?thesis
    by (auto simp: mixedBuildsSupported_def)
qed

theorem IsMixedBuildsEnabled_conditions_witness:
  "(case IsMixedBuildsEnabled
           ((initialConfig exampleLib exampleArgs [''GLOBAL_THINLTO'' \<mapsto> ''true''])
              \<lparr>BuildMode := BazelDevMode\<rparr>) of
      Inr (b, c') \<Rightarrow> \<not> b
    | Inl e \<Rightarrow> False)"
proof -
  let ?c = "(initialConfig exampleLib exampleArgs [''GLOBAL_THINLTO'' \<mapsto> ''true''])
              \<lparr>BuildMode := BazelDevMode\<rparr>"
  have "once ?c ''globalMixedBuildsSupport'' = None"
    by (simp add: initialConfig_def)
  then have r: "reachable ?c" by (rule reachable.fresh)
  have pre: "\<not> envFrozen ?c \<or> ledgerOf (envDeps ?c) ''GLOBAL_THINLTO'' \<noteq> None
           \<or> once ?c ''globalMixedBuildsSupport'' \<noteq> None
           \<or> DeviceArch (productVariables ?c) = Some ''riscv64''"
    by (simp add: initialConfig_def)
  have t: "truthy (envValue ?c ''GLOBAL_THINLTO'')"
    by (simp add: initialConfig_def envValue_def ledgerOf_def lookupEnv_def truthy_def)
  from IsMixedBuildsEnabled_conditions [OF r pre] t show ?thesis
    by auto
qed

end
